theory Spec2Isabelle
  imports Main "HOL-Library.Word" "HOL-Library.Sublist" "HOL-Library.List_Lexorder"
begin

section \<open>Python values\<close>

text \<open>
  A Python \<open>str\<close> is a sequence of Unicode code points and \<open>len\<close> counts code points, so
  a string is a list of naturals. \<open>bytes\<close> is a list of octets. String literals of the
  source are written with \<open>asc\<close>, which maps an ASCII literal to its code points.
\<close>

type_synonym pystr = "nat list"
type_synonym bytes = "8 word list"

definition asc :: "string \<Rightarrow> pystr" where
  "asc s = map of_char s"

text \<open>The exceptions the modelled code raises or catches. \<open>LibError\<close> stands for any
  exception raised inside a library call (zipfile, fitz, pdfminer, httpx, the database).\<close>

datatype py_exn = RuntimeError pystr | TypeError | KeyError | LibError

text \<open>\<open>str.isspace\<close> on one code point; the same set is matched by \<open>\s\<close> in a \<open>str\<close>
  pattern and removed by \<open>str.strip()\<close>.\<close>

definition isspace :: "nat \<Rightarrow> bool" where
  "isspace c \<longleftrightarrow>
     (9 \<le> c \<and> c \<le> 13) \<or> (28 \<le> c \<and> c \<le> 32) \<or> c = 133 \<or> c = 160 \<or> c = 5760 \<or>
     (8192 \<le> c \<and> c \<le> 8202) \<or> c = 8232 \<or> c = 8233 \<or> c = 8239 \<or> c = 8287 \<or> c = 12288"

text \<open>\<open>re.sub(r"\s+", " ", text)\<close>: every maximal run of whitespace becomes one space.\<close>

function collapse_ws :: "pystr \<Rightarrow> pystr" where
  "collapse_ws [] = []"
| "collapse_ws (c # cs) =
     (if isspace c then 32 # collapse_ws (dropWhile isspace cs) else c # collapse_ws cs)"
  by pat_completeness auto
termination
  by (relation "measure length") (auto simp: length_dropWhile_le less_Suc_eq_le)

text \<open>\<open>text.strip()\<close>.\<close>

definition strip :: "pystr \<Rightarrow> pystr" where
  "strip s = rev (dropWhile isspace (rev (dropWhile isspace s)))"

text \<open>\<open>s[:n]\<close> for a Python int \<open>n\<close>: a negative bound counts from the end.\<close>

definition slice_to :: "'a list \<Rightarrow> int \<Rightarrow> 'a list" where
  "slice_to s n = (if 0 \<le> n then take (nat n) s else take (length s - nat (- n)) s)"

text \<open>The expression \<open>text[:max_chars] + (" ..." if len(text) > max_chars else "")\<close>, which the
  source repeats at each of its four return sites.\<close>

definition ellipsis :: pystr where
  "ellipsis = asc '' ...''"

definition truncated :: "pystr \<Rightarrow> int \<Rightarrow> pystr" where
  "truncated text max_chars =
     slice_to text max_chars @ (if int (length text) > max_chars then ellipsis else [])"

text \<open>\<open>str(n)\<close> for a natural number, as the f-string renders \<open>len(data)\<close>.\<close>

fun str_of_nat :: "nat \<Rightarrow> pystr" where
  "str_of_nat n = (if n < 10 then [48 + n] else str_of_nat (n div 10) @ [48 + n mod 10])"

declare str_of_nat.simps [simp del]

text \<open>\<open>f"[binary {len(data)} bytes]"\<close>.\<close>

definition binary_sentinel :: "bytes \<Rightarrow> pystr" where
  "binary_sentinel data = asc ''[binary '' @ str_of_nat (length data) @ asc '' bytes]''"

definition endswith :: "pystr \<Rightarrow> pystr \<Rightarrow> bool" where
  "endswith s x \<longleftrightarrow> take (length x) (rev s) = rev x"

definition startswith :: "pystr \<Rightarrow> pystr \<Rightarrow> bool" where
  "startswith s x \<longleftrightarrow> take (length x) s = x"

text \<open>\<open>sep.join(parts)\<close>.\<close>

fun join :: "pystr \<Rightarrow> pystr list \<Rightarrow> pystr" where
  "join sep [] = []"
| "join sep [p] = p"
| "join sep (p # q # ps) = p @ sep @ join sep (q # ps)"

section \<open>Library calls\<close>

text \<open>
  The interpreter and the third-party libraries are not part of the repository. What
  they return is a parameter of the model: \<open>str.lower\<close>, \<open>bytes.decode("utf-8",
  errors="ignore")\<close>, \<open>html.unescape\<close>, PyMuPDF (the text of each page, or the exception
  raised by \<open>fitz.open\<close> or \<open>get_text\<close>), pdfminer (the text of the first pages), and
  \<open>zipfile\<close> (the members of the archive in directory order, each with the result of reading
  it, or the exception raised on opening), and
  \<open>base64.urlsafe_b64encode(link.encode("utf-8")).decode("ascii")\<close>.
\<close>

record pylib =
  str_lower :: "pystr \<Rightarrow> pystr"
  decode_ignore :: "bytes \<Rightarrow> py_exn + pystr"
  html_unescape :: "pystr \<Rightarrow> py_exn + pystr"
  fitz_open :: "bytes \<Rightarrow> py_exn + (py_exn + pystr) list"
  pdfminer_extract :: "bytes \<Rightarrow> nat \<Rightarrow> py_exn + pystr"
  zip_open :: "bytes \<Rightarrow> py_exn + (pystr \<times> (py_exn + bytes)) list"
  b64_urlsafe :: "pystr \<Rightarrow> py_exn + pystr"

text \<open>Running a list of fallible steps in order, stopping at the first exception.\<close>

fun all_ok :: "('e + 'a) list \<Rightarrow> 'e + 'a list" where
  "all_ok [] = Inr []"
| "all_ok (Inl e # rs) = Inl e"
| "all_ok (Inr x # rs) = (case all_ok rs of Inl e \<Rightarrow> Inl e | Inr xs \<Rightarrow> Inr (x # xs))"

section \<open>Text extraction (providers.py)\<close>

definition OFFICE_EXTS :: "pystr list" where
  "OFFICE_EXTS = [asc ''.docx'', asc ''.pptx'', asc ''.xlsx'']"

definition is_office_zip :: "pylib \<Rightarrow> pystr \<Rightarrow> bool" where
  "is_office_zip L name = (let lower = str_lower L name in list_ex (endswith lower) OFFICE_EXTS)"

subsection \<open>\<open>_extract_xml_text\<close>\<close>

text \<open>Case-insensitive comparison of code points under \<open>re.I\<close>. The tags the source passes
  are \<open>w:t\<close>, \<open>a:t\<close> and \<open>t\<close>; for their letters the only case variants are the ASCII ones.\<close>

definition ascii_lower :: "nat \<Rightarrow> nat" where
  "ascii_lower c = (if 65 \<le> c \<and> c \<le> 90 then c + 32 else c)"

definition ci_startswith :: "pystr \<Rightarrow> pystr \<Rightarrow> bool" where
  "ci_startswith s x \<longleftrightarrow> map ascii_lower (take (length x) s) = map ascii_lower x"

text \<open>The least \<open>j\<close> such that \<open>close\<close> matches at offset \<open>j\<close> of \<open>s\<close>: the lazy group
  \<open>(.*?)\<close> under \<open>re.S\<close>.\<close>

fun find_close :: "pystr \<Rightarrow> pystr \<Rightarrow> nat option" where
  "find_close close [] = (if close = [] then Some 0 else None)"
| "find_close close (c # cs) =
     (if ci_startswith (c # cs) close then Some 0
      else map_option Suc (find_close close cs))"

text \<open>One attempt of \<open><tag[^>]*>(.*?)</tag>\<close> at the start of \<open>s\<close>: the group and the
  number of characters consumed.\<close>

definition match_tag_at :: "pystr \<Rightarrow> pystr \<Rightarrow> (pystr \<times> nat) option" where
  "match_tag_at tag s =
     (let opn = 60 # tag; cls = [60, 47] @ tag @ [62] in
      if \<not> ci_startswith s opn then None
      else let s1 = drop (length opn) s;
               attrs = takeWhile (\<lambda>c. c \<noteq> 62) s1;
               s2 = drop (length attrs) s1
           in (case s2 of [] \<Rightarrow> None
               | _ # s3 \<Rightarrow>
                  (case find_close cls s3 of None \<Rightarrow> None
                   | Some j \<Rightarrow> Some (take j s3, length opn + length attrs + 1 + j + length cls))))"

text \<open>\<open>re.findall\<close> for that pattern: leftmost matches, not overlapping.\<close>

function findall_tag :: "pystr \<Rightarrow> pystr \<Rightarrow> pystr list" where
  "findall_tag tag [] = []"
| "findall_tag tag (c # cs) =
     (case match_tag_at tag (c # cs) of
        None \<Rightarrow> findall_tag tag cs
      | Some (grp, n) \<Rightarrow> grp # findall_tag tag (drop (n - 1) cs))"
  by pat_completeness auto
termination
  by (relation "measure (\<lambda>(tag, s). length s)") auto

text \<open>\<open>re.sub(r"<[^>]+>", "", s)\<close>.\<close>

function strip_tags :: "pystr \<Rightarrow> pystr" where
  "strip_tags [] = []"
| "strip_tags (c # cs) =
     (let inner = takeWhile (\<lambda>d. d \<noteq> 62) cs; rest = drop (length inner) cs in
      if c = 60 \<and> inner \<noteq> [] \<and> rest \<noteq> [] then strip_tags (tl rest)
      else c # strip_tags cs)"
  by pat_completeness auto
termination
  by (relation "measure length") (auto simp: less_Suc_eq_le intro: le_trans [OF diff_le_self])

definition extract_xml_text :: "pylib \<Rightarrow> bytes \<Rightarrow> pystr \<Rightarrow> pystr" where
  "extract_xml_text L xml_bytes tag =
     (case decode_ignore L xml_bytes of
        Inl e \<Rightarrow> []
      | Inr txt \<Rightarrow>
          (case all_ok (map (\<lambda>s. html_unescape L (strip_tags s)) (findall_tag tag txt)) of
             Inl e \<Rightarrow> []
           | Inr parts \<Rightarrow> strip (collapse_ws (join [32] parts))))"

subsection \<open>\<open>_preview_office_zip\<close>\<close>

type_synonym archive = "(pystr \<times> (py_exn + bytes)) list"

definition namelist :: "archive \<Rightarrow> pystr list" where
  "namelist zf = map fst zf"

text \<open>\<open>zf.read(name)\<close>: the last member of that name, \<open>KeyError\<close> when there is none.\<close>

definition zf_read :: "archive \<Rightarrow> pystr \<Rightarrow> py_exn + bytes" where
  "zf_read zf name = (case map_of (rev zf) name of None \<Rightarrow> Inl KeyError | Some r \<Rightarrow> r)"

text \<open>The body of the \<open>with\<close> block up to \<open>text = (text or "").strip()\<close>: the text recovered
  from the archive, or the exception that leaves the \<open>try\<close>.\<close>

definition office_text :: "pylib \<Rightarrow> pystr \<Rightarrow> archive \<Rightarrow> py_exn + pystr" where
  "office_text L filename zf =
     (let name_lower = str_lower L filename in
      if endswith name_lower (asc ''.docx'') then
        (if asc ''word/document.xml'' \<in> set (namelist zf) then
           (case zf_read zf (asc ''word/document.xml'') of
              Inl e \<Rightarrow> Inl e
            | Inr b \<Rightarrow> Inr (strip ([32] @ extract_xml_text L b (asc ''w:t''))))
         else Inr (strip []))
      else if endswith name_lower (asc ''.pptx'') then
        (case all_ok (map (zf_read zf)
                 (sort (filter (\<lambda>n. startswith n (asc ''ppt/slides/slide'') \<and> endswith n (asc ''.xml''))
                          (namelist zf)))) of
           Inl e \<Rightarrow> Inl e
         | Inr bs \<Rightarrow> Inr (strip (concat (map (\<lambda>b. [32] @ extract_xml_text L b (asc ''a:t'')) bs))))
      else if endswith name_lower (asc ''.xlsx'') then
        (if asc ''xl/sharedStrings.xml'' \<in> set (namelist zf) then
           (case zf_read zf (asc ''xl/sharedStrings.xml'') of
              Inl e \<Rightarrow> Inl e
            | Inr b \<Rightarrow> Inr (strip (extract_xml_text L b (asc ''t''))))
         else Inr (strip []))
      else Inr (strip []))"

definition preview_office_zip :: "pylib \<Rightarrow> pystr \<Rightarrow> bytes \<Rightarrow> int \<Rightarrow> py_exn + pystr" where
  "preview_office_zip L filename data max_chars =
     (case zip_open L data of
        Inl e \<Rightarrow> Inr (binary_sentinel data)
      | Inr zf \<Rightarrow>
          (case office_text L filename zf of
             Inl e \<Rightarrow> Inr (binary_sentinel data)
           | Inr text \<Rightarrow>
               if text \<noteq> [] then Inr (truncated text max_chars)
               else Inr (binary_sentinel data)))"

subsection \<open>\<open>_preview_pdf_bytes\<close>\<close>

text \<open>The PyMuPDF attempt: the pages up to \<open>max_pages\<close> are read in order, an exception
  from any of them leaves the \<open>try\<close>.\<close>

definition fitz_text :: "pylib \<Rightarrow> bytes \<Rightarrow> nat \<Rightarrow> py_exn + pystr" where
  "fitz_text L data max_pages =
     (case fitz_open L data of
        Inl e \<Rightarrow> Inl e
      | Inr doc \<Rightarrow>
          (case all_ok (take max_pages doc) of
             Inl e \<Rightarrow> Inl e
           | Inr texts \<Rightarrow> Inr (collapse_ws (strip (join [32] texts)))))"

text \<open>The pdfminer fallback.\<close>

definition pdfminer_text :: "pylib \<Rightarrow> bytes \<Rightarrow> nat \<Rightarrow> py_exn + pystr" where
  "pdfminer_text L data max_pages =
     (case pdfminer_extract L data max_pages of
        Inl e \<Rightarrow> Inl e
      | Inr txt \<Rightarrow> Inr (strip (collapse_ws txt)))"

text \<open>A \<open>try\<close> block that returns the truncated text when it is not empty, and otherwise
  (also on any exception) falls through to what follows.\<close>

definition try_return :: "py_exn + pystr \<Rightarrow> int \<Rightarrow> pystr option" where
  "try_return r max_chars =
     (case r of Inl e \<Rightarrow> None
      | Inr txt \<Rightarrow> if txt \<noteq> [] then Some (truncated txt max_chars) else None)"

definition preview_pdf_bytes :: "pylib \<Rightarrow> bytes \<Rightarrow> nat \<Rightarrow> int \<Rightarrow> py_exn + pystr" where
  "preview_pdf_bytes L data max_pages max_chars =
     (case try_return (fitz_text L data max_pages) max_chars of
        Some out \<Rightarrow> Inr out
      | None \<Rightarrow>
          (case try_return (pdfminer_text L data max_pages) max_chars of
             Some out \<Rightarrow> Inr out
           | None \<Rightarrow> Inr (binary_sentinel data)))"

subsection \<open>\<open>text_preview\<close>\<close>

text \<open>The plain-text branch inside its \<open>try\<close>.\<close>

definition plain_text :: "pylib \<Rightarrow> bytes \<Rightarrow> py_exn + pystr" where
  "plain_text L data =
     (case decode_ignore L (slice_to data 4096) of
        Inl e \<Rightarrow> Inl e
      | Inr text \<Rightarrow> Inr (strip (collapse_ws text)))"

definition text_preview :: "pylib \<Rightarrow> pystr \<Rightarrow> bytes \<Rightarrow> int \<Rightarrow> py_exn + pystr" where
  "text_preview L title data max_chars =
     (let name = str_lower L title in
      if endswith name (asc ''.pdf'') then preview_pdf_bytes L data 3 900
      else if is_office_zip L name then preview_office_zip L title data max_chars
      else (case plain_text L data of
              Inl e \<Rightarrow> Inr (binary_sentinel data)
            | Inr text \<Rightarrow> Inr (truncated text max_chars)))"

section \<open>The world: database, clock, environment, network\<close>

text \<open>
  One row of \<open>user_connections\<close>. The table has \<open>UNIQUE(user_name, provider)\<close>, so it is a
  map from that pair to the row. \<open>meta_json\<close> holds \<open>json.dumps(meta or {})\<close>; the model
  keeps the dictionary itself.
\<close>

record conn_row =
  access_token :: "pystr option"
  refresh_token :: "pystr option"
  token_type :: "pystr option"
  scope :: "pystr option"
  expires_at :: "int option"
  meta_json :: "(pystr \<times> pystr) list"
  provider_account_id :: "pystr option"
  provider_account_email :: "pystr option"
  created_at :: int
  updated_at :: int

text \<open>The \<open>token\<close> dictionary handed to \<open>save_connection\<close>, read with \<open>.get\<close> only: a missing
  key and a null value both give \<open>None\<close>, except for \<open>token_type\<close>, which has a default.\<close>

record token =
  tk_access_token :: "pystr option"
  tk_refresh_token :: "pystr option"
  tk_token_type :: "pystr option option"
  tk_scope :: "pystr option"
  tk_expires_at :: "int option"

text \<open>The JSON object of a token endpoint, by the keys the code reads. \<open>expires_in\<close> is
  \<open>None\<close> when the key is missing and \<open>Some None\<close> when it is null.\<close>

record token_json =
  tj_access_token :: "pystr option"
  tj_refresh_token :: "pystr option"
  tj_scope :: "pystr option"
  tj_expires_in :: "int option option"

text \<open>An item of a OneDrive listing, by the keys the code reads.\<close>

record drive_item =
  di_id :: "pystr option"
  di_name :: "pystr option"
  di_folder :: bool
  di_content_url :: "pystr option"
  di_graph_url :: "pystr option"

text \<open>What a request gets back: a status code with the payload (for a JSON endpoint the
  parsed object, \<open>None\<close> when \<open>r.json()\<close> raises), or an exception from httpx.\<close>

datatype 'b reply = Reply int 'b | Unreachable

datatype pval = PStr pystr | PInt int

datatype event =
    HttpPost pystr
  | HttpGet pystr "pystr option" "(pystr \<times> pval) list"
  | SemAcquire
  | SemRelease

text \<open>A document as the providers return it: a dictionary with these keys.\<close>

record doc =
  d_id :: pystr
  d_title :: pystr
  d_content :: pystr
  d_mimeType :: "pystr option"
  d_url :: "pystr option"
  d_last_edited_time :: "pystr option"
  d_provider :: "pystr option"

text \<open>The JSON object of a OneDrive share lookup: its \<open>children\<close> and \<open>value\<close> keys.\<close>

record share_json =
  sh_children :: "drive_item list option"
  sh_value :: "drive_item list option"

text \<open>A Google Drive file resource, by the fields the code asks for
  (\<open>id,name,mimeType,size\<close>); \<open>size\<close> is taken as already numeric.\<close>

record gfile =
  gf_id :: "pystr option"
  gf_name :: "pystr option"
  gf_mimeType :: "pystr option"
  gf_size :: "int option"

text \<open>A result of the Notion search, by the keys the code reads: a property value has a
  \<open>type\<close> and a \<open>title\<close> list of rich-text objects, of which only \<open>plain_text\<close> is read.\<close>

record notion_prop =
  np_type :: "pystr option"
  np_title :: "pystr option list option"

record notion_item =
  ni_object :: "pystr option"
  ni_id :: "pystr option"
  ni_url :: "pystr option"
  ni_last_edited_time :: "pystr option"
  ni_properties :: "(pystr \<times> notion_prop option) list option"
  ni_title :: "pystr option list option"

text \<open>One row of \<open>document_cache\<close>, which has \<open>UNIQUE(user_name, provider, doc_id)\<close>.\<close>

record cache_row =
  doc_title :: "pystr option"
  content_preview :: "pystr option"
  summary :: "pystr option"
  cache_created_at :: int
  cache_updated_at :: int

text \<open>The state of the process and of what it talks to: the clock, the environment
  variables, the two tables, for every endpoint the replies it will give to the requests
  to come (in order), and the requests and semaphore operations performed so far. The
  clock stands still during one call, the database statements are taken to succeed, and a
  JSON body is taken to have, under the keys the code reads, values of the documented
  types.\<close>

record world =
  clock :: int
  environ :: "pystr \<rightharpoonup> pystr"
  connections :: "pystr \<times> pystr \<rightharpoonup> conn_row"
  document_cache :: "pystr \<times> pystr \<times> pystr \<rightharpoonup> cache_row"
  google_token_replies :: "token_json option reply list"
  google_meta_replies :: "gfile option reply list"
  google_list_replies :: "gfile list option option reply list"
  google_media_replies :: "bytes reply list"
  google_export_replies :: "bytes reply list"
  onedrive_token_replies :: "token_json option reply list"
  graph_replies :: "drive_item list option option reply list"
  share_replies :: "share_json option reply list"
  download_replies :: "bytes reply list"
  notion_replies :: "notion_item list option option reply list"
  trace :: "event list"

text \<open>A computation in the world that returns or raises.\<close>

type_synonym 'a io = "world \<Rightarrow> (py_exn + 'a) \<times> world"

definition ret :: "'a \<Rightarrow> 'a io" where
  "ret x w = (Inr x, w)"

definition throw :: "py_exn \<Rightarrow> 'a io" where
  "throw e w = (Inl e, w)"

definition io_bind :: "'a io \<Rightarrow> ('a \<Rightarrow> 'b io) \<Rightarrow> 'b io" where
  "io_bind m f w = (case m w of (Inl e, w') \<Rightarrow> (Inl e, w') | (Inr x, w') \<Rightarrow> f x w')"

definition emit :: "event \<Rightarrow> world \<Rightarrow> world" where
  "emit ev w = w\<lparr>trace := trace w @ [ev]\<rparr>"

text \<open>\<open>os.getenv(key, "")\<close>.\<close>

definition getenv :: "world \<Rightarrow> pystr \<Rightarrow> pystr" where
  "getenv w key = (case environ w key of None \<Rightarrow> [] | Some v \<Rightarrow> v)"

text \<open>\<open>x or ""\<close> for a string or \<open>None\<close>.\<close>

definition or_empty :: "pystr option \<Rightarrow> pystr" where
  "or_empty x = (case x of None \<Rightarrow> [] | Some s \<Rightarrow> s)"

text \<open>One request against an endpoint: the request is recorded, the next reply of the
  endpoint is consumed; no reply left means the request fails like a timeout.\<close>

definition next_reply :: "'b reply list \<Rightarrow> (py_exn + int \<times> 'b) \<times> 'b reply list" where
  "next_reply rs =
     (case rs of
        [] \<Rightarrow> (Inl LibError, [])
      | Unreachable # rest \<Rightarrow> (Inl LibError, rest)
      | Reply st b # rest \<Rightarrow> (Inr (st, b), rest))"

section \<open>storage.py\<close>

definition save_connection ::
  "pylib \<Rightarrow> pystr \<Rightarrow> pystr \<Rightarrow> token \<Rightarrow> pystr option \<Rightarrow> pystr option \<Rightarrow>
   (pystr \<times> pystr) list option \<Rightarrow> world \<Rightarrow> world" where
  "save_connection L user_name provider token account_id account_email meta w =
     (let now = clock w;
          key = (strip user_name, str_lower L provider);
          new_token_type = (case tk_token_type token of None \<Rightarrow> Some (asc ''Bearer'') | Some v \<Rightarrow> v);
          new_meta = (case meta of None \<Rightarrow> [] | Some m \<Rightarrow> m);
          row = (case connections w key of
                   None \<Rightarrow>
                     \<lparr> access_token = tk_access_token token,
                       refresh_token = tk_refresh_token token,
                       token_type = new_token_type,
                       scope = tk_scope token,
                       expires_at = tk_expires_at token,
                       meta_json = new_meta,
                       provider_account_id = account_id,
                       provider_account_email = account_email,
                       created_at = now,
                       updated_at = now \<rparr>
                 | Some old \<Rightarrow>
                     old\<lparr> access_token := tk_access_token token,
                          refresh_token := (case tk_refresh_token token of
                                              None \<Rightarrow> refresh_token old
                                            | Some r \<Rightarrow> Some r),
                          token_type := new_token_type,
                          scope := tk_scope token,
                          expires_at := tk_expires_at token,
                          meta_json := new_meta,
                          provider_account_id := account_id,
                          provider_account_email := account_email,
                          updated_at := now \<rparr>)
      in w\<lparr>connections := (connections w)(key \<mapsto> row)\<rparr>)"

definition get_connection_row :: "pylib \<Rightarrow> pystr \<Rightarrow> pystr \<Rightarrow> world \<Rightarrow> conn_row option" where
  "get_connection_row L user_name provider w = connections w (strip user_name, str_lower L provider)"

definition get_provider_token :: "pylib \<Rightarrow> pystr \<Rightarrow> pystr \<Rightarrow> world \<Rightarrow> conn_row option" where
  "get_provider_token L user_name provider w = get_connection_row L user_name provider w"

section \<open>Token handling (providers.py)\<close>

text \<open>\<open>_read_token_row\<close>: the row as a dictionary, \<open>None\<close> standing for the empty one.\<close>

definition read_token_row :: "pylib \<Rightarrow> pystr \<Rightarrow> pystr \<Rightarrow> world \<Rightarrow> conn_row option" where
  "read_token_row L user_name provider w = get_provider_token L user_name provider w"

text \<open>\<open>_extract_tokens\<close>. A row read from the table always has the token columns as keys,
  so the branch that reads the tokens out of \<open>meta_json\<close> is never taken on it.\<close>

record tokens =
  t_access_token :: "pystr option"
  t_refresh_token :: "pystr option"
  t_expires_at :: int
  t_scope :: "pystr option"
  t_token_type :: pystr

definition extract_tokens :: "conn_row option \<Rightarrow> tokens option" where
  "extract_tokens row =
     (case row of
        None \<Rightarrow> None
      | Some r \<Rightarrow>
          Some \<lparr> t_access_token = access_token r,
                 t_refresh_token = refresh_token r,
                 t_expires_at = (case expires_at r of None \<Rightarrow> 0 | Some n \<Rightarrow> n),
                 t_scope = scope r,
                 t_token_type = (if or_empty (token_type r) = [] then asc ''Bearer''
                                 else or_empty (token_type r)) \<rparr>)"

text \<open>\<open>tok.get(key)\<close> on the result, which may be the empty dictionary.\<close>

definition tok_access_token :: "tokens option \<Rightarrow> pystr option" where
  "tok_access_token tok = (case tok of None \<Rightarrow> None | Some t \<Rightarrow> t_access_token t)"

definition tok_refresh_token :: "tokens option \<Rightarrow> pystr option" where
  "tok_refresh_token tok = (case tok of None \<Rightarrow> None | Some t \<Rightarrow> t_refresh_token t)"

definition tok_expires_at :: "tokens option \<Rightarrow> int" where
  "tok_expires_at tok = (case tok of None \<Rightarrow> 0 | Some t \<Rightarrow> t_expires_at t)"

text \<open>\<open>int(tok.get("expires_in", 3600))\<close>.\<close>

definition expires_in_int :: "token_json \<Rightarrow> py_exn + int" where
  "expires_in_int js =
     (case tj_expires_in js of
        None \<Rightarrow> Inr 3600
      | Some None \<Rightarrow> Inl TypeError
      | Some (Some n) \<Rightarrow> Inr n)"

text \<open>The dictionary \<open>new_tokens\<close> both \<open>refresh_token\<close> methods build from the response.\<close>

definition new_tokens :: "token_json \<Rightarrow> pystr \<Rightarrow> int \<Rightarrow> py_exn + token" where
  "new_tokens js rt now =
     (case expires_in_int js of
        Inl e \<Rightarrow> Inl e
      | Inr n \<Rightarrow>
          Inr \<lparr> tk_access_token = tj_access_token js,
                tk_refresh_token = Some (if or_empty (tj_refresh_token js) = [] then rt
                                         else or_empty (tj_refresh_token js)),
                tk_token_type = None,
                tk_scope = tj_scope js,
                tk_expires_at = Some (now + n) \<rparr>)"

subsection \<open>OneDriveProvider\<close>

definition ONEDRIVE_TOKEN_URL :: "world \<Rightarrow> pystr" where
  "ONEDRIVE_TOKEN_URL w =
     asc ''https://login.microsoftonline.com/'' @
     (case environ w (asc ''ONEDRIVE_TENANT'') of None \<Rightarrow> asc ''common'' | Some t \<Rightarrow> t) @
     asc ''/oauth2/v2.0/token''"

definition GRAPH_BASE :: pystr where
  "GRAPH_BASE = asc ''https://graph.microsoft.com/v1.0''"

definition onedrive_token_post :: "token_json io" where
  "onedrive_token_post w =
     (let (r, rest) = next_reply (onedrive_token_replies w);
          w' = emit (HttpPost (ONEDRIVE_TOKEN_URL w)) (w\<lparr>onedrive_token_replies := rest\<rparr>)
      in case r of
           Inl e \<Rightarrow> (Inl e, w')
         | Inr (st, body) \<Rightarrow>
             if st \<noteq> 200 then (Inl (RuntimeError (asc ''OneDrive token refresh failed'')), w')
             else (case body of None \<Rightarrow> (Inl LibError, w') | Some js \<Rightarrow> (Inr js, w')))"

definition onedrive_refresh_token :: "pylib \<Rightarrow> pystr \<Rightarrow> unit io" where
  "onedrive_refresh_token L user_name w =
     (let row = read_token_row L user_name (asc ''onedrive'') w;
          tok = extract_tokens row;
          rt = strip (or_empty (tok_refresh_token tok))
      in if rt = [] then (Inl (RuntimeError (asc ''onedrive refresh_token not found'')), w)
         else
           let cid = getenv w (asc ''ONEDRIVE_CLIENT_ID'');
               csec = getenv w (asc ''ONEDRIVE_CLIENT_SECRET'')
           in if cid = [] \<or> csec = []
              then (Inl (RuntimeError (asc ''ONEDRIVE_CLIENT_ID/SECRET not configured'')), w)
              else
                io_bind onedrive_token_post (\<lambda>js w1.
                  case new_tokens js rt (clock w1) of
                    Inl e \<Rightarrow> (Inl e, w1)
                  | Inr nt \<Rightarrow>
                      (Inr (), save_connection L user_name (asc ''onedrive'') nt None None None w1)) w)"

definition onedrive_get_valid_token :: "pylib \<Rightarrow> pystr \<Rightarrow> pystr io" where
  "onedrive_get_valid_token L user_name w =
     (let tok = extract_tokens (read_token_row L user_name (asc ''onedrive'') w)
      in if tok_expires_at tok < clock w + 60 then
           io_bind (onedrive_refresh_token L user_name) (\<lambda>_ w1.
             let tok1 = extract_tokens (read_token_row L user_name (asc ''onedrive'') w1)
             in (Inr (or_empty (tok_access_token tok1)), w1)) w
         else (Inr (or_empty (tok_access_token tok)), w))"

text \<open>The GET of \<open>list_my_drive\<close>: status code and the \<open>value\<close> of the JSON object (\<open>None\<close>
  when the body is not JSON, \<open>Some None\<close> when the key is missing).\<close>

definition graph_get ::
  "pystr \<Rightarrow> pystr \<Rightarrow> int \<Rightarrow> (int \<times> drive_item list option option) io" where
  "graph_get url token limit w =
     (let (r, rest) = next_reply (graph_replies w);
          w' = emit (HttpGet url (Some (asc ''Bearer '' @ token)) [(asc ''$top'', PInt limit)])
                 (w\<lparr>graph_replies := rest\<rparr>)
      in (r, w'))"

text \<open>The loop over \<open>items[:limit]\<close>; \<open>it["id"]\<close> raises \<open>KeyError\<close> when the key is missing.\<close>

definition folder_prefix :: pystr where
  "folder_prefix = [91, 54260, 45908, 93, 32]"

fun drive_docs :: "drive_item list \<Rightarrow> py_exn + doc list" where
  "drive_docs [] = Inr []"
| "drive_docs (it # items) =
     (case di_id it of
        None \<Rightarrow> Inl KeyError
      | Some i \<Rightarrow>
          (case drive_docs items of
             Inl e \<Rightarrow> Inl e
           | Inr docs \<Rightarrow>
               Inr (\<lparr> d_id = i,
                      d_title = (if di_folder it then folder_prefix @ or_empty (di_name it)
                                 else or_empty (di_name it)),
                      d_content = (if di_folder it then [] else asc ''[OneDrive item]''),
                      d_mimeType = None, d_url = None, d_last_edited_time = None,
                      d_provider = None \<rparr> # docs)))"

text \<open>The \<open>url\<close> of \<open>list_my_drive\<close>.\<close>

definition children_url :: "pystr \<Rightarrow> pystr" where
  "children_url folder_id =
     (if folder_id = asc ''root'' then GRAPH_BASE @ asc ''/me/drive/root/children''
      else GRAPH_BASE @ asc ''/me/drive/items/'' @ folder_id @ asc ''/children'')"

definition list_my_drive :: "pylib \<Rightarrow> pystr \<Rightarrow> pystr \<Rightarrow> int \<Rightarrow> doc list io" where
  "list_my_drive L user_name folder_id limit =
     io_bind (onedrive_get_valid_token L user_name) (\<lambda>token.
       let url = children_url folder_id
       in io_bind (graph_get url token limit) (\<lambda>r.
            io_bind (if fst r = 401 then
                       io_bind (onedrive_refresh_token L user_name) (\<lambda>_.
                         io_bind (onedrive_get_valid_token L user_name) (\<lambda>token'.
                           graph_get url token' limit))
                     else ret r) (\<lambda>r'.
              if fst r' \<noteq> 200 then ret []
              else (case snd r' of
                      None \<Rightarrow> throw LibError
                    | Some v \<Rightarrow>
                        (case drive_docs (slice_to (case v of None \<Rightarrow> [] | Some items \<Rightarrow> items) limit) of
                           Inl e \<Rightarrow> throw e
                         | Inr docs \<Rightarrow> ret docs)))))"

subsection \<open>\<open>_http_get_bytes\<close>\<close>

text \<open>The download under the process-wide semaphore \<open>_DL_SEMAPHORE\<close>: acquire, GET,
  release; any failure gives the empty bytes.\<close>

definition http_get_bytes :: "pystr \<Rightarrow> world \<Rightarrow> bytes \<times> world" where
  "http_get_bytes url w =
     (let w1 = emit SemAcquire w;
          (r, rest) = next_reply (download_replies w1);
          w2 = emit (HttpGet url None []) (w1\<lparr>download_replies := rest\<rparr>);
          out = (case r of Inl e \<Rightarrow> [] | Inr (st, content) \<Rightarrow> if st = 200 then content else [])
      in (out, emit SemRelease w2))"

subsection \<open>\<open>OneDriveProvider.enumerate_from_link\<close>\<close>

text \<open>\<open>s.rstrip("=")\<close>.\<close>

definition rstrip_eq :: "pystr \<Rightarrow> pystr" where
  "rstrip_eq s = rev (dropWhile (\<lambda>c. c = 61) (rev s))"

definition to_share_id :: "pylib \<Rightarrow> pystr \<Rightarrow> pystr option" where
  "to_share_id L link =
     (case b64_urlsafe L link of Inl e \<Rightarrow> None | Inr b64 \<Rightarrow> Some (asc ''u!'' @ rstrip_eq b64))"

text \<open>\<open>a or b or ""\<close> on two strings that may be \<open>None\<close>.\<close>

definition or_else :: "pystr option \<Rightarrow> pystr option \<Rightarrow> pystr" where
  "or_else a b = (if or_empty a \<noteq> [] then or_empty a else or_empty b)"

text \<open>The preview of one downloaded item: \<open>text_preview(name, data)\<close> when there is data,
  inside a \<open>try\<close> that swallows everything.\<close>

definition preview_of :: "pylib \<Rightarrow> pystr \<Rightarrow> bytes \<Rightarrow> pystr" where
  "preview_of L name data =
     (if data = [] then []
      else (case text_preview L name data 600 of Inl e \<Rightarrow> [] | Inr p \<Rightarrow> p))"

text \<open>The loop over the children of a shared item. It appends to \<open>docs\<close> as it goes, so an
  exception (\<open>ch["id"]\<close> on an item without id) leaves the documents appended before it:
  the result is the documents appended and the exception, if any.\<close>

fun share_docs :: "pylib \<Rightarrow> drive_item list \<Rightarrow> world \<Rightarrow> (doc list \<times> py_exn option) \<times> world" where
  "share_docs L [] w = (([], None), w)"
| "share_docs L (ch # chs) w =
     (let name = or_empty (di_name ch) in
      if di_folder ch then
        (case di_id ch of
           None \<Rightarrow> (([], Some KeyError), w)
         | Some i \<Rightarrow>
             (let ((ds, e), w') = share_docs L chs w
              in ((\<lparr> d_id = i, d_title = folder_prefix @ name, d_content = [],
                      d_mimeType = None, d_url = None, d_last_edited_time = None,
                      d_provider = None \<rparr> # ds, e), w')))
      else
        (let dl = or_else (di_content_url ch) (di_graph_url ch);
             (preview, w1) = (if dl \<noteq> [] then
                                (let (data, w1) = http_get_bytes dl w in (preview_of L name data, w1))
                              else ([], w))
         in case di_id ch of
              None \<Rightarrow> (([], Some KeyError), w1)
            | Some i \<Rightarrow>
                (let ((ds, e), w') = share_docs L chs w1
                 in ((\<lparr> d_id = i, d_title = name,
                         d_content = (if preview \<noteq> [] then preview else asc ''[OneDrive file]''),
                         d_mimeType = None, d_url = None, d_last_edited_time = None,
                         d_provider = None \<rparr> # ds, e), w'))))"

text \<open>The first attempt, through the public shares API: the documents gathered, and whether
  the method returns them at once (\<open>if docs: return docs\<close> was reached with documents).\<close>

definition share_attempt :: "pylib \<Rightarrow> pystr \<Rightarrow> int \<Rightarrow> world \<Rightarrow> (doc list \<times> bool) \<times> world" where
  "share_attempt L link max_files w =
     (case to_share_id L link of
        None \<Rightarrow> (([], False), w)
      | Some share_id \<Rightarrow>
          (let (r, rest) = next_reply (share_replies w);
               w1 = emit (HttpGet (asc ''https://api.onedrive.com/v1.0/shares/'' @ share_id @
                                   asc ''/driveItem?expand=children'') None [])
                      (w\<lparr>share_replies := rest\<rparr>)
           in case r of
                Inl e \<Rightarrow> (([], False), w1)
              | Inr (st, body) \<Rightarrow>
                  if st = 200 then
                    (case body of
                       None \<Rightarrow> (([], False), w1)
                     | Some item \<Rightarrow>
                         (let children =
                                (case sh_children item of
                                   Some (c # cs) \<Rightarrow> c # cs
                                 | _ \<Rightarrow> (case sh_value item of Some v \<Rightarrow> v | None \<Rightarrow> []));
                              ((docs, e), w2) = share_docs L (slice_to children max_files) w1
                          in ((docs, e = None \<and> docs \<noteq> []), w2)))
                  else (([], False), w1)))"

definition onedrive_enumerate_from_link :: "pylib \<Rightarrow> pystr \<Rightarrow> pystr \<Rightarrow> int \<Rightarrow> doc list io" where
  "onedrive_enumerate_from_link L user_name link max_files w =
     (let ((docs, returned), w1) = share_attempt L link max_files w
      in if returned then (Inr docs, w1)
         else (case list_my_drive L user_name (asc ''root'') max_files w1 of
                 (Inl e, w2) \<Rightarrow> (Inr docs, w2)
               | (Inr docs', w2) \<Rightarrow> (Inr docs', w2)))"

subsection \<open>GoogleProvider\<close>

definition GOOGLE_TOKEN_URL :: pystr where
  "GOOGLE_TOKEN_URL = asc ''https://oauth2.googleapis.com/token''"

definition GOOGLE_FILES_URL :: pystr where
  "GOOGLE_FILES_URL = asc ''https://www.googleapis.com/drive/v3/files''"

definition MAX_PREVIEW_BYTES :: int where
  "MAX_PREVIEW_BYTES = 8 * 1024 * 1024"

definition bearer :: "pystr \<Rightarrow> pystr option" where
  "bearer token = Some (asc ''Bearer '' @ token)"

definition google_refresh_token :: "pylib \<Rightarrow> pystr \<Rightarrow> unit io" where
  "google_refresh_token L user_name w =
     (let row = read_token_row L user_name (asc ''google'') w;
          rt = strip (or_else (case row of None \<Rightarrow> None | Some r \<Rightarrow> refresh_token r)
                              (tok_refresh_token (extract_tokens row)))
      in if rt = [] then (Inr (), w)
         else
           let cid = getenv w (asc ''GOOGLE_CLIENT_ID'');
               csec = getenv w (asc ''GOOGLE_CLIENT_SECRET'')
           in if cid = [] \<or> csec = []
              then (Inl (RuntimeError (asc ''Google Client ID/Secret not configured'')), w)
              else
                (let (r, rest) = next_reply (google_token_replies w);
                     w1 = emit (HttpPost GOOGLE_TOKEN_URL) (w\<lparr>google_token_replies := rest\<rparr>)
                 in case r of
                      Inl e \<Rightarrow> (Inl e, w1)
                    | Inr (st, body) \<Rightarrow>
                        if st \<noteq> 200 then (Inr (), w1)
                        else (case body of
                                None \<Rightarrow> (Inl LibError, w1)
                              | Some js \<Rightarrow>
                                  (case new_tokens js rt (clock w1) of
                                     Inl e \<Rightarrow> (Inl e, w1)
                                   | Inr nt \<Rightarrow>
                                       (Inr (), save_connection L user_name (asc ''google'') nt
                                                  None None None w1)))))"

definition google_get_valid_token :: "pylib \<Rightarrow> pystr \<Rightarrow> pystr io" where
  "google_get_valid_token L user_name w =
     (let tok = extract_tokens (read_token_row L user_name (asc ''google'') w)
      in if tok_expires_at tok < clock w + 60 then
           io_bind (google_refresh_token L user_name) (\<lambda>_ w1.
             let tok1 = extract_tokens (read_token_row L user_name (asc ''google'') w1)
             in (Inr (or_empty (tok_access_token tok1)), w1)) w
         else (Inr (or_empty (tok_access_token tok)), w))"

text \<open>\<open>_extract_id_from_link\<close>. \<open>idchar\<close> is the class \<open>[a-zA-Z0-9_-]\<close>; \<open>search_id lit s\<close> is
  \<open>re.search\<close> for \<open>lit([a-zA-Z0-9_-]+)\<close>: the leftmost place where the literal is followed
  by such a character, and the longest run of them from there.\<close>

definition idchar :: "nat \<Rightarrow> bool" where
  "idchar c \<longleftrightarrow> (97 \<le> c \<and> c \<le> 122) \<or> (65 \<le> c \<and> c \<le> 90) \<or> (48 \<le> c \<and> c \<le> 57) \<or> c = 95 \<or> c = 45"

fun search_id :: "pystr \<Rightarrow> pystr \<Rightarrow> pystr option" where
  "search_id lit [] = None"
| "search_id lit (c # cs) =
     (let run = takeWhile idchar (drop (length lit) (c # cs)) in
      if startswith (c # cs) lit \<and> run \<noteq> [] then Some run else search_id lit cs)"

text \<open>\<open>re.match(r"^[a-zA-Z0-9_-]{20,}$", link)\<close>; \<open>$\<close> also matches before a final newline.\<close>

definition raw_id :: "pystr \<Rightarrow> bool" where
  "raw_id link \<longleftrightarrow>
     (let body = (if link \<noteq> [] \<and> last link = 10 then butlast link else link)
      in list_all idchar body \<and> 20 \<le> length body)"

fun first_some :: "'a option list \<Rightarrow> 'a option" where
  "first_some [] = None"
| "first_some (None # xs) = first_some xs"
| "first_some (Some x # xs) = Some x"

definition extract_id_from_link :: "pystr \<Rightarrow> pystr option" where
  "extract_id_from_link link =
     (case first_some (map (\<lambda>lit. search_id lit link)
             [asc ''/folders/'', asc ''/file/d/'', asc ''/document/d/'', asc ''/spreadsheets/d/'',
              asc ''/presentation/d/'', asc ''id='']) of
        Some i \<Rightarrow> Some i
      | None \<Rightarrow> if raw_id link then Some link else None)"

definition get_file_metadata :: "pystr \<Rightarrow> pystr \<Rightarrow> gfile option io" where
  "get_file_metadata token file_id w =
     (let (r, rest) = next_reply (google_meta_replies w);
          w1 = emit (HttpGet (GOOGLE_FILES_URL @ asc ''/'' @ file_id) (bearer token)
                       [(asc ''fields'', PStr (asc ''id,name,mimeType,size''))])
                 (w\<lparr>google_meta_replies := rest\<rparr>)
      in case r of
           Inl e \<Rightarrow> (Inl e, w1)
         | Inr (st, body) \<Rightarrow>
             if st = 200 then (case body of None \<Rightarrow> (Inl LibError, w1) | Some g \<Rightarrow> (Inr (Some g), w1))
             else (Inr None, w1))"

text \<open>\<open>_download_file\<close>: a plain GET, not under the semaphore.\<close>

definition download_file :: "pystr \<Rightarrow> pystr \<Rightarrow> bytes option io" where
  "download_file token file_id w =
     (let (r, rest) = next_reply (google_media_replies w);
          w1 = emit (HttpGet (GOOGLE_FILES_URL @ asc ''/'' @ file_id) (bearer token)
                       [(asc ''alt'', PStr (asc ''media''))])
                 (w\<lparr>google_media_replies := rest\<rparr>)
      in case r of
           Inl e \<Rightarrow> (Inl e, w1)
         | Inr (st, content) \<Rightarrow> (Inr (if st = 200 then Some content else None), w1))"

definition export_target :: "pystr \<Rightarrow> pystr" where
  "export_target mime =
     (if mime = asc ''application/vnd.google-apps.document''
        then asc ''application/vnd.openxmlformats-officedocument.wordprocessingml.document''
      else if mime = asc ''application/vnd.google-apps.spreadsheet''
        then asc ''application/vnd.openxmlformats-officedocument.spreadsheetml.sheet''
      else if mime = asc ''application/vnd.google-apps.presentation''
        then asc ''application/vnd.openxmlformats-officedocument.presentationml.presentation''
      else asc ''application/pdf'')"

text \<open>\<open>_export_native_file\<close>: likewise a plain GET.\<close>

definition export_native_file :: "pystr \<Rightarrow> pystr \<Rightarrow> pystr \<Rightarrow> bytes option io" where
  "export_native_file token file_id mime w =
     (let (r, rest) = next_reply (google_export_replies w);
          w1 = emit (HttpGet (GOOGLE_FILES_URL @ asc ''/'' @ file_id @ asc ''/export'') (bearer token)
                       [(asc ''mimeType'', PStr (export_target mime))])
                 (w\<lparr>google_export_replies := rest\<rparr>)
      in case r of
           Inl e \<Rightarrow> (Inl e, w1)
         | Inr (st, content) \<Rightarrow> (Inr (if st = 200 then Some content else None), w1))"

definition list_folder :: "pystr \<Rightarrow> pystr \<Rightarrow> int \<Rightarrow> gfile list io" where
  "list_folder token folder_id limit w =
     (let (r, rest) = next_reply (google_list_replies w);
          w1 = emit (HttpGet GOOGLE_FILES_URL (bearer token)
                       [(asc ''q'', PStr ([39] @ folder_id @ [39] @ asc '' in parents and trashed = false'')),
                        (asc ''pageSize'', PInt limit),
                        (asc ''fields'', PStr (asc ''files(id,name,mimeType,size)''))])
                 (w\<lparr>google_list_replies := rest\<rparr>)
      in case r of
           Inl e \<Rightarrow> (Inl e, w1)
         | Inr (st, body) \<Rightarrow>
             if st \<noteq> 200 then (Inr [], w1)
             else (case body of
                     None \<Rightarrow> (Inl LibError, w1)
                   | Some files \<Rightarrow> (Inr (case files of None \<Rightarrow> [] | Some fs \<Rightarrow> fs), w1)))"

text \<open>\<open>x in s\<close> for strings.\<close>

fun contains :: "pystr \<Rightarrow> pystr \<Rightarrow> bool" where
  "contains [] x = (x = [])"
| "contains (c # cs) x = (startswith (c # cs) x \<or> contains cs x)"

text \<open>The \<open>try\<close> block that computes \<open>preview\<close>, which the source has once for the children
  of a folder and once for a single file. \<open>fid\<close> is \<open>f["id"]\<close>, \<open>None\<close> when the key is missing
  (the \<open>KeyError\<close> is caught here like every other exception).\<close>

definition google_preview ::
  "pylib \<Rightarrow> pystr \<Rightarrow> pystr option \<Rightarrow> pystr \<Rightarrow> pystr \<Rightarrow> int \<Rightarrow> world \<Rightarrow> pystr \<times> world" where
  "google_preview L token fid name mt sz w =
     (if startswith mt (asc ''application/vnd.google-apps.'') then
        (case fid of
           None \<Rightarrow> ([], w)
         | Some i \<Rightarrow>
             (case export_native_file token i mt w of
                (Inl e, w1) \<Rightarrow> ([], w1)
              | (Inr None, w1) \<Rightarrow> ([], w1)
              | (Inr (Some data), w1) \<Rightarrow>
                  (let ext = (if contains mt (asc ''document'') then asc ''.docx''
                              else if contains mt (asc ''spreadsheet'') then asc ''.xlsx''
                              else asc ''.pptx'')
                   in (preview_of L (name @ ext) data, w1))))
      else if sz \<le> MAX_PREVIEW_BYTES then
        (case fid of
           None \<Rightarrow> ([], w)
         | Some i \<Rightarrow>
             (case download_file token i w of
                (Inl e, w1) \<Rightarrow> ([], w1)
              | (Inr None, w1) \<Rightarrow> ([], w1)
              | (Inr (Some data), w1) \<Rightarrow> (preview_of L name data, w1)))
      else ([], w))"

definition type_placeholder :: "pystr \<Rightarrow> pystr" where
  "type_placeholder mt = [91, 50976, 54805, 58, 32] @ mt @ [93]"

definition google_doc :: "pystr \<Rightarrow> pystr \<Rightarrow> pystr \<Rightarrow> pystr \<Rightarrow> doc" where
  "google_doc i name mt preview =
     \<lparr> d_id = i, d_title = name,
       d_content = (if preview \<noteq> [] then preview else type_placeholder mt),
       d_mimeType = Some mt, d_url = None, d_last_edited_time = None, d_provider = None \<rparr>"

text \<open>The loop over the files of a folder; \<open>f["id"]\<close> in \<open>docs.append\<close> is outside the \<open>try\<close>.\<close>

fun folder_docs :: "pylib \<Rightarrow> pystr \<Rightarrow> gfile list \<Rightarrow> doc list io" where
  "folder_docs L token [] w = (Inr [], w)"
| "folder_docs L token (f # fs) w =
     (let name = or_empty (gf_name f);
          mt = or_empty (gf_mimeType f);
          sz = (case gf_size f of None \<Rightarrow> 0 | Some n \<Rightarrow> n);
          (preview, w1) = google_preview L token (gf_id f) name mt sz w
      in case gf_id f of
           None \<Rightarrow> (Inl KeyError, w1)
         | Some i \<Rightarrow>
             (case folder_docs L token fs w1 of
                (Inl e, w2) \<Rightarrow> (Inl e, w2)
              | (Inr docs, w2) \<Rightarrow> (Inr (google_doc i name mt preview # docs), w2)))"

text \<open>An empty JSON object is falsy.\<close>

definition gfile_empty :: "gfile \<Rightarrow> bool" where
  "gfile_empty g \<longleftrightarrow> gf_id g = None \<and> gf_name g = None \<and> gf_mimeType g = None \<and> gf_size g = None"

definition google_enumerate_from_link :: "pylib \<Rightarrow> pystr \<Rightarrow> pystr \<Rightarrow> int \<Rightarrow> doc list io" where
  "google_enumerate_from_link L user_name link max_files =
     io_bind (google_get_valid_token L user_name) (\<lambda>token.
       if token = [] then ret []
       else (case extract_id_from_link link of
               None \<Rightarrow> ret []
             | Some item_id \<Rightarrow>
                 if item_id = [] then ret []
                 else
                   io_bind (get_file_metadata token item_id) (\<lambda>meta.
                     case meta of
                       None \<Rightarrow> ret []
                     | Some m \<Rightarrow>
                         if gfile_empty m then ret []
                         else if contains (or_empty (gf_mimeType m)) (asc ''application/vnd.google-apps.folder'')
                         then io_bind (list_folder token item_id max_files) (folder_docs L token)
                         else (\<lambda>w.
                           let name = or_empty (gf_name m);
                               mt = or_empty (gf_mimeType m);
                               sz = (case gf_size m of None \<Rightarrow> 0 | Some n \<Rightarrow> n);
                               (preview, w1) = google_preview L token (Some item_id) name mt sz w
                           in (Inr [google_doc item_id name mt preview], w1)))))"

subsection \<open>NotionProvider\<close>

definition NOTION_API_SEARCH :: pystr where
  "NOTION_API_SEARCH = asc ''https://api.notion.com/v1/search''"

definition notion_get_token :: "pylib \<Rightarrow> pystr \<Rightarrow> world \<Rightarrow> pystr" where
  "notion_get_token L user_name w =
     (let row = read_token_row L user_name (asc ''notion'') w
      in or_else (case row of None \<Rightarrow> None | Some r \<Rightarrow> access_token r)
                 (tok_access_token (extract_tokens row)))"

text \<open>\<open>t and t[0].get("plain_text")\<close>: the text of the first element when it is not empty.\<close>

definition first_plain_text :: "pystr option list option \<Rightarrow> pystr option" where
  "first_plain_text t =
     (case t of
        Some (Some p # rest) \<Rightarrow> if p \<noteq> [] then Some p else None
      | _ \<Rightarrow> None)"

text \<open>The loop over the properties of a page: the first one of type \<open>title\<close> with a text.\<close>

fun page_title :: "(pystr \<times> notion_prop option) list \<Rightarrow> pystr option" where
  "page_title [] = None"
| "page_title ((k, v) # props) =
     (case v of
        None \<Rightarrow> page_title props
      | Some pr \<Rightarrow>
          if np_type pr = Some (asc ''title'') then
            (case first_plain_text (np_title pr) of
               Some p \<Rightarrow> Some p
             | None \<Rightarrow> page_title props)
          else page_title props)"

definition untitled :: pystr where
  "untitled = [51228, 47785, 32, 50630, 51020]"

definition notion_doc :: "notion_item \<Rightarrow> doc" where
  "notion_doc item =
     (let title =
            (if ni_object item = Some (asc ''page'') then
               (case page_title (case ni_properties item of None \<Rightarrow> [] | Some ps \<Rightarrow> ps) of
                  Some p \<Rightarrow> p | None \<Rightarrow> untitled)
             else if ni_object item = Some (asc ''database'') then
               (case first_plain_text (ni_title item) of Some p \<Rightarrow> p | None \<Rightarrow> untitled)
             else untitled)
      in \<lparr> d_id = or_empty (ni_id item), d_title = title,
           d_content = asc ''[Notion '' @
                       (case ni_object item of None \<Rightarrow> asc ''page'' | Some ob \<Rightarrow> ob) @ asc '']'',
           d_mimeType = None, d_url = Some (or_empty (ni_url item)),
           d_last_edited_time = Some (or_empty (ni_last_edited_time item)),
           d_provider = None \<rparr>)"

definition search_pages :: "pylib \<Rightarrow> pystr \<Rightarrow> pystr \<Rightarrow> int \<Rightarrow> doc list io" where
  "search_pages L user_name query limit w =
     (let token = notion_get_token L user_name w
      in if token = [] then (Inr [], w)
         else
           (let (r, rest) = next_reply (notion_replies w);
                w1 = emit (HttpPost NOTION_API_SEARCH) (w\<lparr>notion_replies := rest\<rparr>)
            in case r of
                 Inl e \<Rightarrow> (Inl e, w1)
               | Inr (st, body) \<Rightarrow>
                   if st \<noteq> 200 then (Inr [], w1)
                   else (case body of
                           None \<Rightarrow> (Inl LibError, w1)
                         | Some results \<Rightarrow>
                             (Inr (map notion_doc (case results of None \<Rightarrow> [] | Some rs \<Rightarrow> rs)), w1))))"

definition notion_enumerate_from_link :: "pylib \<Rightarrow> pystr \<Rightarrow> pystr \<Rightarrow> int \<Rightarrow> doc list io" where
  "notion_enumerate_from_link L user_name link max_files = search_pages L user_name [] max_files"

subsection \<open>The provider registry\<close>

datatype provider = GoogleProvider | OneDriveProvider | NotionProvider

text \<open>\<open>REGISTRY.get(key)\<close>.\<close>

definition REGISTRY :: "pystr \<Rightarrow> provider option" where
  "REGISTRY key =
     (if key = asc ''google'' then Some GoogleProvider
      else if key = asc ''onedrive'' then Some OneDriveProvider
      else if key = asc ''notion'' then Some NotionProvider
      else None)"

fun enumerate_from_link :: "provider \<Rightarrow> pylib \<Rightarrow> pystr \<Rightarrow> pystr \<Rightarrow> int \<Rightarrow> doc list io" where
  "enumerate_from_link GoogleProvider = google_enumerate_from_link"
| "enumerate_from_link OneDriveProvider = onedrive_enumerate_from_link"
| "enumerate_from_link NotionProvider = notion_enumerate_from_link"

definition get_documents_from_provider ::
  "pylib \<Rightarrow> pystr \<Rightarrow> pystr \<Rightarrow> pystr \<Rightarrow> int \<Rightarrow> doc list io" where
  "get_documents_from_provider L user_name provider link max_files =
     (case REGISTRY (str_lower L provider) of
        None \<Rightarrow> ret []
      | Some p \<Rightarrow> enumerate_from_link p L user_name link max_files)"


section \<open>chat_router.py: gathering the documents\<close>

text \<open>\<open>cache_document\<close> of storage.py, an upsert that keeps a stored column where the new
  value is null.\<close>

definition coalesce :: "'a option \<Rightarrow> 'a option \<Rightarrow> 'a option" where
  "coalesce a b = (case a of None \<Rightarrow> b | Some x \<Rightarrow> Some x)"

definition cache_document ::
  "pylib \<Rightarrow> pystr \<Rightarrow> pystr \<Rightarrow> pystr \<Rightarrow> pystr option \<Rightarrow> pystr option \<Rightarrow> pystr option \<Rightarrow>
   world \<Rightarrow> world" where
  "cache_document L user_name provider doc_id title preview summ w =
     (let now = clock w;
          key = (strip user_name, str_lower L provider, doc_id);
          row = (case document_cache w key of
                   None \<Rightarrow>
                     \<lparr> doc_title = title, content_preview = preview, summary = summ,
                       cache_created_at = now, cache_updated_at = now \<rparr>
                 | Some old \<Rightarrow>
                     old\<lparr> doc_title := coalesce title (doc_title old),
                          content_preview := coalesce preview (content_preview old),
                          summary := coalesce summ (summary old),
                          cache_updated_at := now \<rparr>)
      in w\<lparr>document_cache := (document_cache w)(key \<mapsto> row)\<rparr>)"

text \<open>An entry of \<open>sources_used\<close>.\<close>

record source =
  s_provider :: pystr
  s_title :: pystr
  s_id :: pystr

text \<open>The variables the loops of \<open>chat_ask\<close> update: \<open>all_docs\<close>, \<open>sources_used\<close>, and the world.\<close>

record gathered =
  all_docs :: "doc list"
  sources_used :: "source list"
  after :: world

text \<open>The inner loop \<open>for doc in docs\<close>.\<close>

fun take_docs :: "pylib \<Rightarrow> pystr \<Rightarrow> pystr \<Rightarrow> doc list \<Rightarrow> gathered \<Rightarrow> gathered" where
  "take_docs L user_name provider [] g = g"
| "take_docs L user_name provider (d # ds) g =
     take_docs L user_name provider ds
       \<lparr> all_docs = all_docs g @ [d\<lparr>d_provider := Some provider\<rparr>],
         sources_used = sources_used g @
           [\<lparr> s_provider = provider, s_title = d_title d, s_id = d_id d \<rparr>],
         after = cache_document L user_name provider (d_id d) (Some (d_title d))
                   (Some (slice_to (d_content d) 500)) None (after g) \<rparr>"

text \<open>One round of \<open>for provider in providers_to_check\<close>: the \<open>try\<close> around the call and the
  inner loop, and \<open>except Exception\<close>, which only logs.\<close>

definition gather_from ::
  "pylib \<Rightarrow> pystr \<Rightarrow> pystr \<Rightarrow> int \<Rightarrow> gathered \<Rightarrow> pystr \<Rightarrow> gathered" where
  "gather_from L user_name link max_files g provider =
     (case get_documents_from_provider L user_name provider link max_files (after g) of
        (Inl e, w') \<Rightarrow> g\<lparr>after := w'\<rparr>
      | (Inr docs, w') \<Rightarrow> take_docs L user_name provider docs (g\<lparr>after := w'\<rparr>))"

text \<open>The choice of \<open>providers_to_check\<close>.\<close>

definition providers_to_check :: "pylib \<Rightarrow> pystr \<Rightarrow> pystr option \<Rightarrow> world \<Rightarrow> pystr list" where
  "providers_to_check L user_name req_provider w =
     (if or_empty req_provider \<noteq> [] \<and> or_empty req_provider \<noteq> asc ''auto''
      then [str_lower L (or_empty req_provider)]
      else filter (\<lambda>p. get_connection_row L user_name p w \<noteq> None)
             [asc ''google'', asc ''onedrive'', asc ''notion''])"

text \<open>The loop \<open>for provider in providers_to_check\<close>.\<close>

definition gather_loop ::
  "pylib \<Rightarrow> pystr \<Rightarrow> pystr \<Rightarrow> int \<Rightarrow> gathered \<Rightarrow> pystr list \<Rightarrow> gathered" where
  "gather_loop L user_name link max_files g providers =
     foldl (gather_from L user_name link max_files) g providers"

text \<open>\<open>chat_ask\<close> up to the end of the gathering loop, for a request with a user name and a
  question: \<open>req.link or ""\<close>, \<open>req.max_docs or 10\<close>.\<close>

definition chat_ask_gather ::
  "pylib \<Rightarrow> pystr \<Rightarrow> pystr option \<Rightarrow> pystr option \<Rightarrow> int option \<Rightarrow> world \<Rightarrow> gathered" where
  "chat_ask_gather L req_user_name req_provider req_link req_max_docs w =
     (let user_name = strip req_user_name;
          max_files = (case req_max_docs of None \<Rightarrow> 10 | Some n \<Rightarrow> if n = 0 then 10 else n)
      in gather_loop L user_name (or_empty req_link) max_files
           \<lparr> all_docs = [], sources_used = [], after = w \<rparr>
           (providers_to_check L user_name req_provider w))"

section \<open>The OAuth callbacks (auth_google.py, auth_onedrive.py)\<close>

text \<open>Both callbacks compute the expiry of the first token as
  \<open>int(time.time()) + int(tok["expires_in"]) - 60\<close>.\<close>

definition callback_expires_at :: "int \<Rightarrow> int \<Rightarrow> int" where
  "callback_expires_at now expires_in = now + expires_in - 60"

section \<open>Notions used to state the properties\<close>

text \<open>The requests among the events.\<close>

fun is_get :: "event \<Rightarrow> bool" where
  "is_get (HttpGet url auth params) = True"
| "is_get ev = False"

fun is_post :: "event \<Rightarrow> bool" where
  "is_post (HttpPost url) = True"
| "is_post ev = False"

text \<open>The access token stored for OneDrive and the time it is stored to expire at, as
  \<open>_get_valid_token\<close> reads them.\<close>

definition onedrive_access :: "pylib \<Rightarrow> pystr \<Rightarrow> world \<Rightarrow> pystr" where
  "onedrive_access L user_name w =
     or_empty (tok_access_token (extract_tokens (read_token_row L user_name (asc ''onedrive'') w)))"

definition onedrive_expiry :: "pylib \<Rightarrow> pystr \<Rightarrow> world \<Rightarrow> int" where
  "onedrive_expiry L user_name w =
     tok_expires_at (extract_tokens (read_token_row L user_name (asc ''onedrive'') w))"

text \<open>The GET of \<open>list_my_drive\<close> as an event.\<close>

definition listing_get :: "pystr \<Rightarrow> pystr \<Rightarrow> int \<Rightarrow> event" where
  "listing_get folder_id token limit =
     HttpGet (children_url folder_id) (Some (asc ''Bearer '' @ token)) [(asc ''$top'', PInt limit)]"

text \<open>The truncation budget of \<open>text_preview\<close>: 900 characters for a PDF, the caller's
  \<open>max_chars\<close> otherwise.\<close>

definition budget_of :: "pylib \<Rightarrow> pystr \<Rightarrow> int \<Rightarrow> int" where
  "budget_of L title max_chars =
     (if endswith (str_lower L title) (asc ''.pdf'') then 900 else max_chars)"

definition nonempty_text :: "py_exn + pystr \<Rightarrow> pystr option" where
  "nonempty_text r = (case r of Inl e \<Rightarrow> None | Inr t \<Rightarrow> if t = [] then None else Some t)"

text \<open>The whitespace-collapsed text that \<open>text_preview\<close> goes on to truncate, \<open>None\<close> when it
  has none and answers with the sentinel.\<close>

definition extracted_text :: "pylib \<Rightarrow> pystr \<Rightarrow> bytes \<Rightarrow> pystr option" where
  "extracted_text L title data =
     (if endswith (str_lower L title) (asc ''.pdf'') then
        (case nonempty_text (fitz_text L data 3) of
           Some t \<Rightarrow> Some t
         | None \<Rightarrow> nonempty_text (pdfminer_text L data 3))
      else if is_office_zip L (str_lower L title) then
        (case zip_open L data of
           Inl e \<Rightarrow> None
         | Inr zf \<Rightarrow> nonempty_text (office_text L title zf))
      else (case plain_text L data of Inl e \<Rightarrow> None | Inr t \<Rightarrow> Some t))"

text \<open>A library for concrete runs: ASCII lower-casing and decoding (which agree with Python
  on ASCII input), no entity to unescape, and no PDF, zip or base64 backend available.\<close>

definition ascii_lib :: pylib where
  "ascii_lib =
     \<lparr> str_lower = map ascii_lower,
       decode_ignore = (\<lambda>b. Inr (map unat (filter (\<lambda>x. x < 128) b))),
       html_unescape = Inr,
       fitz_open = (\<lambda>b. Inl LibError),
       pdfminer_extract = (\<lambda>b n. Inl LibError),
       zip_open = (\<lambda>b. Inl LibError),
       b64_urlsafe = (\<lambda>s. Inl LibError) \<rparr>"

text \<open>The UTF-8 encoding of an ASCII literal.\<close>

definition enc :: "string \<Rightarrow> bytes" where
  "enc s = map of_char s"

text \<open>A world for concrete runs: the clock at 1000, the client credentials configured, empty
  tables, no reply scripted, nothing done yet.\<close>

definition world0 :: world where
  "world0 =
     \<lparr> clock = 1000,
       environ = map_of [(asc ''ONEDRIVE_CLIENT_ID'', asc ''cid''),
                         (asc ''ONEDRIVE_CLIENT_SECRET'', asc ''secret''),
                         (asc ''GOOGLE_CLIENT_ID'', asc ''cid''),
                         (asc ''GOOGLE_CLIENT_SECRET'', asc ''secret'')],
       connections = Map.empty,
       document_cache = Map.empty,
       google_token_replies = [],
       google_meta_replies = [],
       google_list_replies = [],
       google_media_replies = [],
       google_export_replies = [],
       onedrive_token_replies = [],
       graph_replies = [],
       share_replies = [],
       download_replies = [],
       notion_replies = [],
       trace = [] \<rparr>"

text \<open>The token a callback stores, expiring at \<open>exp\<close>, and the world in which user \<open>alice\<close> has
  connected \<open>provider\<close> with it.\<close>

definition first_token :: "int \<Rightarrow> token" where
  "first_token exp =
     \<lparr> tk_access_token = Some (asc ''access-1''),
       tk_refresh_token = Some (asc ''refresh-1''),
       tk_token_type = Some (Some (asc ''Bearer'')),
       tk_scope = Some (asc ''files.read''),
       tk_expires_at = Some exp \<rparr>"

definition connected :: "string \<Rightarrow> int \<Rightarrow> world" where
  "connected provider exp =
     save_connection ascii_lib (asc ''alice'') (asc provider) (first_token exp)
       (Some (asc ''acct-1'')) (Some (asc ''alice@example.org'')) None world0"

text \<open>A refresh response without a new refresh token, valid for \<open>n\<close> seconds.\<close>

definition refreshed_json :: "int \<Rightarrow> token_json" where
  "refreshed_json n =
     \<lparr> tj_access_token = Some (asc ''access-2''),
       tj_refresh_token = None,
       tj_scope = Some (asc ''files.read''),
       tj_expires_in = Some (Some n) \<rparr>"

text \<open>The dictionary a refresh hands to \<open>save_connection\<close> when the server sent no new
  refresh token and the method had none to put in its place.\<close>

definition rotated_token :: token where
  "rotated_token =
     \<lparr> tk_access_token = Some (asc ''access-2''),
       tk_refresh_token = None,
       tk_token_type = None,
       tk_scope = Some (asc ''files.read''),
       tk_expires_at = Some 4600 \<rparr>"

text \<open>Worlds in which the stored token of \<open>alice\<close> expired at 900 (the clock is at 1000) and
  the token endpoint will answer the refresh with a token valid for 3600 seconds.\<close>

definition expired_onedrive :: world where
  "expired_onedrive =
     (connected ''onedrive'' 900)\<lparr>onedrive_token_replies := [Reply 200 (Some (refreshed_json 3600))]\<rparr>"

definition expired_google :: world where
  "expired_google =
     (connected ''google'' 900)\<lparr>google_token_replies := [Reply 200 (Some (refreshed_json 3600))]\<rparr>"

text \<open>A world in which \<open>alice\<close> has a valid Google token and Drive holds a folder \<open>F1\<close> with
  one plain-text file \<open>f2\<close> of five bytes.\<close>

definition drive_folder_world :: world where
  "drive_folder_world =
     (connected ''google'' 5000)
       \<lparr> google_meta_replies :=
           [Reply 200 (Some \<lparr> gf_id = Some (asc ''F1''), gf_name = Some (asc ''docs''),
                               gf_mimeType = Some (asc ''application/vnd.google-apps.folder''),
                               gf_size = None \<rparr>)],
         google_list_replies :=
           [Reply 200 (Some (Some [\<lparr> gf_id = Some (asc ''f2''), gf_name = Some (asc ''notes.txt''),
                                      gf_mimeType = Some (asc ''text/plain''), gf_size = Some 5 \<rparr>]))],
         google_media_replies := [Reply 200 (enc ''hello'')] \<rparr>"

text \<open>Worlds in which the stored OneDrive token of \<open>alice\<close> is valid until 5000 and the
  listing answers 401: in the first the refresh succeeds and the retry gets 401 again, in the
  second the token endpoint refuses the refresh (and a retry would have been answered 200).\<close>

definition unauthorized_world :: world where
  "unauthorized_world =
     (connected ''onedrive'' 5000)
       \<lparr> onedrive_token_replies := [Reply 200 (Some (refreshed_json 3600))],
         graph_replies := [Reply 401 None, Reply 401 None] \<rparr>"

definition refused_world :: world where
  "refused_world =
     (connected ''onedrive'' 5000)
       \<lparr> onedrive_token_replies := [Reply 400 None],
         graph_replies := [Reply 401 None, Reply 200 (Some (Some []))] \<rparr>"

text \<open>The world after the first GET of \<open>list_my_drive\<close> for \<open>alice\<close>'s root folder.\<close>

definition after_first_get :: "world \<Rightarrow> world" where
  "after_first_get w =
     emit (listing_get (asc ''root'') (onedrive_access ascii_lib (asc ''alice'') w) 50)
       (w\<lparr>graph_replies := tl (graph_replies w)\<rparr>)"

text \<open>A world in which \<open>alice\<close> has connected Google and Notion, her Google token has expired
  and the Google client credentials are not configured (so the refresh raises), while the
  Notion search answers with one page.\<close>

definition notion_page :: notion_item where
  "notion_page =
     \<lparr> ni_object = Some (asc ''page''), ni_id = Some (asc ''n1''),
       ni_url = Some (asc ''https://notion.so/n1''), ni_last_edited_time = Some (asc ''2024-01-01''),
       ni_properties = Some [(asc ''Name'', Some \<lparr> np_type = Some (asc ''title''),
                                                   np_title = Some [Some (asc ''Plan'')] \<rparr>)],
       ni_title = None \<rparr>"

definition two_provider_world :: world where
  "two_provider_world =
     (save_connection ascii_lib (asc ''alice'') (asc ''notion'') (first_token 0) None None None
        (connected ''google'' 900))
       \<lparr> environ := Map.empty,
         notion_replies := [Reply 200 (Some (Some [notion_page]))] \<rparr>"

text \<open>The variables of the gathering loop before its first round.\<close>

definition nothing_gathered :: "world \<Rightarrow> gathered" where
  "nothing_gathered w = \<lparr> all_docs = [], sources_used = [], after = w \<rparr>"

section \<open>Properties of the text extractor\<close>

lemma truncated_long:
  "0 \<le> b \<Longrightarrow> b < int (length t) \<Longrightarrow> truncated t b = take (nat b) t @ ellipsis"
  by (simp add: truncated_def slice_to_def)

lemma text_preview_extracted:
  "extracted_text L title data = Some t \<Longrightarrow>
   text_preview L title data max_chars = Inr (truncated t (budget_of L title max_chars))"
  by (auto simp: text_preview_def extracted_text_def budget_of_def preview_pdf_bytes_def
        preview_office_zip_def try_return_def nonempty_text_def Let_def
      split: sum.splits option.splits if_splits)

lemma blank_collapses: "\<forall>c\<in>set t. isspace c \<Longrightarrow> strip (collapse_ws t) = []"
proof (cases t)
  case Nil
  then show ?thesis by (simp add: strip_def)
next
  case (Cons c cs)
  assume a: "\<forall>c\<in>set t. isspace c"
  then have d: "dropWhile isspace cs = []" using Cons by simp
  have "isspace c" using a Cons by simp
  then have "collapse_ws t = [32]" unfolding Cons by (simp add: d)
  then show ?thesis by (simp add: strip_def isspace_def)
qed

text \<open>
  C4. For every filename and every byte input (and every budget and every behaviour of
  the libraries), \<open>text_preview\<close> raises nothing and returns a string.
\<close>

theorem text_preview_total: "\<exists>s. text_preview L title data max_chars = Inr s"
  by (auto simp: text_preview_def preview_pdf_bytes_def preview_office_zip_def Let_def
      split: sum.splits option.splits)

text \<open>
  C2, as the code has it. When the extracted, whitespace-collapsed text is longer than a
  non-negative budget, \<open>text_preview\<close> returns the first \<open>budget\<close> characters of that text
  followed by the ellipsis marker: the length of the result is the budget plus the length
  of the marker, and the part before the marker is a prefix of the collapsed text.
\<close>

theorem text_preview_truncates:
  assumes "extracted_text L title data = Some t"
    and "0 \<le> budget_of L title max_chars"
    and "budget_of L title max_chars < int (length t)"
  shows "\<exists>out. text_preview L title data max_chars = Inr out \<and>
           out = take (nat (budget_of L title max_chars)) t @ ellipsis \<and>
           int (length out) = budget_of L title max_chars + int (length ellipsis) \<and>
           prefix (take (nat (budget_of L title max_chars)) t) t"
  using assms text_preview_extracted [OF assms(1), of max_chars]
  by (simp add: truncated_long take_is_prefix min_def)

theorem text_preview_truncates_witness:
  "extracted_text ascii_lib (asc ''notes.txt'') (enc ''abc   def'') = Some (asc ''abc def'') \<and>
   (0::int) \<le> budget_of ascii_lib (asc ''notes.txt'') 5 \<and>
   budget_of ascii_lib (asc ''notes.txt'') 5 < int (length (asc ''abc def'')) \<and>
   text_preview ascii_lib (asc ''notes.txt'') (enc ''abc   def'') 5 = Inr (asc ''abc d ...'')"
proof -
  have h1: "extracted_text ascii_lib (asc ''notes.txt'') (enc ''abc   def'') = Some (asc ''abc def'')"
    by (simp add: extracted_text_def ascii_lib_def asc_def enc_def endswith_def is_office_zip_def
        OFFICE_EXTS_def plain_text_def slice_to_def strip_def isspace_def ascii_lower_def)
  have h2: "(0::int) \<le> budget_of ascii_lib (asc ''notes.txt'') 5"
    by (simp add: budget_of_def)
  have h3: "budget_of ascii_lib (asc ''notes.txt'') 5 < int (length (asc ''abc def''))"
    by (simp add: budget_of_def ascii_lib_def asc_def endswith_def ascii_lower_def)
  have b: "budget_of ascii_lib (asc ''notes.txt'') 5 = 5"
    by (simp add: budget_of_def ascii_lib_def asc_def endswith_def ascii_lower_def)
  from text_preview_truncates [OF h1 h2 h3] h1 h2 h3 show ?thesis
    unfolding b by (simp add: asc_def ellipsis_def)
qed

text \<open>The claim as the specification words it fails: the returned string carries the
  marker, so it is not itself a prefix of the collapsed text.\<close>

theorem text_preview_prefix_counterexample:
  "extracted_text ascii_lib (asc ''notes.txt'') (enc ''abcdef'') = Some (asc ''abcdef'') \<and>
   budget_of ascii_lib (asc ''notes.txt'') 3 < int (length (asc ''abcdef'')) \<and>
   text_preview ascii_lib (asc ''notes.txt'') (enc ''abcdef'') 3 = Inr (asc ''abc ...'') \<and>
   \<not> prefix (asc ''abc ...'') (asc ''abcdef'')"
  by (simp add: text_preview_def extracted_text_def budget_of_def ascii_lib_def asc_def enc_def
      endswith_def is_office_zip_def OFFICE_EXTS_def plain_text_def slice_to_def strip_def
      truncated_def ellipsis_def isspace_def ascii_lower_def)

text \<open>
  C10. For a filename that ends in none of \<open>.pdf\<close>, \<open>.docx\<close>, \<open>.pptx\<close>, \<open>.xlsx\<close> and bytes
  whose first 4096 decode to whitespace only (or to nothing), \<open>text_preview\<close> returns the
  empty string, for every non-negative budget: not the sentinel, nor any other placeholder.
\<close>

theorem text_preview_blank:
  assumes "\<not> endswith (str_lower L title) (asc ''.pdf'')"
    and "\<not> is_office_zip L (str_lower L title)"
    and "decode_ignore L (slice_to data 4096) = Inr t"
    and "\<forall>c\<in>set t. isspace c"
    and "0 \<le> max_chars"
  shows "text_preview L title data max_chars = Inr []"
  using assms
  by (simp add: text_preview_def plain_text_def blank_collapses truncated_def slice_to_def)

theorem text_preview_blank_witness:
  "\<not> endswith (str_lower ascii_lib (asc ''a.bin'')) (asc ''.pdf'') \<and>
   \<not> is_office_zip ascii_lib (str_lower ascii_lib (asc ''a.bin'')) \<and>
   decode_ignore ascii_lib (slice_to (enc '' '' @ [0xFF, 0x0A]) 4096) = Inr [32, 10] \<and>
   isspace 32 \<and> isspace 10 \<and>
   text_preview ascii_lib (asc ''a.bin'') (enc '' '' @ [0xFF, 0x0A]) 600 = Inr []"
proof -
  have h1: "\<not> endswith (str_lower ascii_lib (asc ''a.bin'')) (asc ''.pdf'')"
    by (simp add: ascii_lib_def asc_def endswith_def ascii_lower_def)
  have h2: "\<not> is_office_zip ascii_lib (str_lower ascii_lib (asc ''a.bin''))"
    by (simp add: ascii_lib_def asc_def endswith_def ascii_lower_def is_office_zip_def OFFICE_EXTS_def)
  have h3: "decode_ignore ascii_lib (slice_to (enc '' '' @ [0xFF, 0x0A]) 4096) = Inr [32, 10]"
    by (simp add: ascii_lib_def enc_def slice_to_def)
  have h4: "\<forall>c\<in>set [32, 10::nat]. isspace c"
    by (simp add: isspace_def)
  have h5: "(0::int) \<le> 600" by simp
  from text_preview_blank [OF h1 h2 h3 h4 h5] h1 h2 h3 h4 show ?thesis by simp
qed

section \<open>Properties of the token store\<close>

lemmas eval_defs = connected_def get_connection_row_def get_provider_token_def read_token_row_def
  save_connection_def world0_def first_token_def refreshed_json_def
  ascii_lib_def strip_def isspace_def asc_def ascii_lower_def Let_def
  extract_tokens_def tok_refresh_token_def tok_access_token_def tok_expires_at_def
  or_empty_def or_else_def getenv_def io_bind_def ret_def throw_def emit_def next_reply_def
  new_tokens_def expires_in_int_def

text \<open>
  C3. When a connection is stored for the user and provider and the token dictionary has
  no refresh token, \<open>save_connection\<close> leaves the stored refresh token as it was and sets the
  access token, the scope and \<open>expires_at\<close> to the new values.
\<close>

theorem save_connection_keeps_refresh_token:
  assumes "get_connection_row L user_name provider w = Some old"
    and "tk_refresh_token token = None"
  shows "\<exists>row. get_connection_row L user_name provider
                 (save_connection L user_name provider token account_id account_email meta w) = Some row \<and>
               refresh_token row = refresh_token old \<and>
               access_token row = tk_access_token token \<and>
               scope row = tk_scope token \<and>
               expires_at row = tk_expires_at token"
  using assms by (simp add: get_connection_row_def save_connection_def Let_def)

theorem save_connection_keeps_refresh_token_witness:
  "(\<exists>old. get_connection_row ascii_lib (asc ''alice'') (asc ''onedrive'') (connected ''onedrive'' 900) = Some old \<and>
          refresh_token old = Some (asc ''refresh-1'')) \<and>
   tk_refresh_token rotated_token = None \<and>
   (\<exists>row. get_connection_row ascii_lib (asc ''alice'') (asc ''onedrive'')
            (save_connection ascii_lib (asc ''alice'') (asc ''onedrive'') rotated_token None None None
               (connected ''onedrive'' 900)) = Some row \<and>
          refresh_token row = Some (asc ''refresh-1'') \<and>
          access_token row = Some (asc ''access-2'') \<and>
          expires_at row = Some 4600)"
proof -
  obtain old where h1: "get_connection_row ascii_lib (asc ''alice'') (asc ''onedrive'') (connected ''onedrive'' 900) = Some old"
    and r: "refresh_token old = Some (asc ''refresh-1'')"
    by (simp add: eval_defs)
  have h2: "tk_refresh_token rotated_token = None"
    by (simp add: rotated_token_def)
  from save_connection_keeps_refresh_token [OF h1 h2, of None None None] h1 r h2 show ?thesis
    by (auto simp: rotated_token_def)
qed

text \<open>
  C9. After \<open>save_connection(user, provider, token)\<close>, \<open>get_connection_row(user, p)\<close> returns
  the row just stored for every \<open>p\<close> with the same lower-case form as \<open>provider\<close>.
\<close>

theorem save_get_case_insensitive:
  assumes "str_lower L p = str_lower L provider"
  shows "\<exists>row. get_connection_row L user_name provider
                 (save_connection L user_name provider token account_id account_email meta w) = Some row \<and>
               get_connection_row L user_name p
                 (save_connection L user_name provider token account_id account_email meta w) = Some row \<and>
               access_token row = tk_access_token token \<and>
               scope row = tk_scope token \<and>
               expires_at row = tk_expires_at token"
  using assms by (simp add: get_connection_row_def save_connection_def Let_def split: option.splits)

theorem save_get_case_insensitive_witness:
  "str_lower ascii_lib (asc ''GOOGLE'') = str_lower ascii_lib (asc ''Google'') \<and>
   (\<exists>row. get_connection_row ascii_lib (asc ''alice'') (asc ''GOOGLE'')
            (save_connection ascii_lib (asc ''alice'') (asc ''Google'') (first_token 4540) None None None world0)
          = Some row \<and> access_token row = Some (asc ''access-1''))"
proof -
  have h: "str_lower ascii_lib (asc ''GOOGLE'') = str_lower ascii_lib (asc ''Google'')"
    by (simp add: ascii_lib_def asc_def ascii_lower_def)
  from save_get_case_insensitive [OF h, of "asc ''alice''" "first_token 4540" None None None world0] h
  show ?thesis by (auto simp: first_token_def)
qed

section \<open>Properties of the token refresh\<close>

text \<open>What a successful refresh stores, for any response: the time of the refresh plus
  \<open>expires_in\<close> (3600 when the key is missing), with no margin taken off.\<close>

lemma new_tokens_expiry:
  "new_tokens js rt now = Inr nt \<Longrightarrow>
   tk_expires_at nt = Some (now + (case tj_expires_in js of Some (Some n) \<Rightarrow> n | _ \<Rightarrow> 3600))"
  by (auto simp: new_tokens_def expires_in_int_def split: option.splits sum.splits)

text \<open>
  C1, on the code. The stored token of \<open>alice\<close> has expired, the refresh at time 1000 succeeds
  with \<open>expires_in = 3600\<close>, for OneDrive and for Google: the row then holds
  \<open>expires_at = 4600\<close>, which is \<open>now + expires_in\<close>, where the claim (and the callbacks that
  store the first token) have \<open>now + expires_in - 60 = 4540\<close>.
\<close>

theorem refresh_stores_unreduced_expiry:
  "fst (onedrive_refresh_token ascii_lib (asc ''alice'') expired_onedrive) = Inr () \<and>
   map_option expires_at (get_connection_row ascii_lib (asc ''alice'') (asc ''onedrive'')
       (snd (onedrive_refresh_token ascii_lib (asc ''alice'') expired_onedrive))) = Some (Some 4600) \<and>
   fst (google_refresh_token ascii_lib (asc ''alice'') expired_google) = Inr () \<and>
   map_option expires_at (get_connection_row ascii_lib (asc ''alice'') (asc ''google'')
       (snd (google_refresh_token ascii_lib (asc ''alice'') expired_google))) = Some (Some 4600) \<and>
   clock expired_onedrive = 1000 \<and> clock expired_google = 1000 \<and>
   callback_expires_at 1000 3600 = 4540"
proof -
  have a: "fst (onedrive_refresh_token ascii_lib (asc ''alice'') expired_onedrive) = Inr () \<and>
     map_option expires_at (get_connection_row ascii_lib (asc ''alice'') (asc ''onedrive'')
       (snd (onedrive_refresh_token ascii_lib (asc ''alice'') expired_onedrive))) = Some (Some 4600)"
    by (simp add: expired_onedrive_def onedrive_refresh_token_def onedrive_token_post_def
        ONEDRIVE_TOKEN_URL_def eval_defs)
  have b: "fst (google_refresh_token ascii_lib (asc ''alice'') expired_google) = Inr () \<and>
     map_option expires_at (get_connection_row ascii_lib (asc ''alice'') (asc ''google'')
       (snd (google_refresh_token ascii_lib (asc ''alice'') expired_google))) = Some (Some 4600)"
    by (simp add: expired_google_def google_refresh_token_def GOOGLE_TOKEN_URL_def eval_defs)
  have c: "clock expired_onedrive = 1000 \<and> clock expired_google = 1000"
    by (simp add: expired_onedrive_def expired_google_def connected_def save_connection_def
        world0_def Let_def)
  show ?thesis using a b c by (simp add: callback_expires_at_def)
qed

section \<open>Properties of the provider registry\<close>

text \<open>
  C8. For a provider name whose lower-case form is none of \<open>google\<close>, \<open>onedrive\<close>, \<open>notion\<close>,
  \<open>get_documents_from_provider\<close> returns the empty list, raises nothing and leaves the world
  as it was.
\<close>

theorem unknown_provider_no_documents:
  assumes "str_lower L provider \<noteq> asc ''google''"
    and "str_lower L provider \<noteq> asc ''onedrive''"
    and "str_lower L provider \<noteq> asc ''notion''"
  shows "get_documents_from_provider L user_name provider link max_files w = (Inr [], w)"
  using assms by (simp add: get_documents_from_provider_def REGISTRY_def ret_def)

theorem unknown_provider_no_documents_witness:
  "str_lower ascii_lib (asc ''Dropbox'') \<noteq> asc ''google'' \<and>
   str_lower ascii_lib (asc ''Dropbox'') \<noteq> asc ''onedrive'' \<and>
   str_lower ascii_lib (asc ''Dropbox'') \<noteq> asc ''notion'' \<and>
   get_documents_from_provider ascii_lib (asc ''alice'') (asc ''Dropbox'') [] 30 world0 = (Inr [], world0)"
proof -
  have h1: "str_lower ascii_lib (asc ''Dropbox'') \<noteq> asc ''google''"
    and h2: "str_lower ascii_lib (asc ''Dropbox'') \<noteq> asc ''onedrive''"
    and h3: "str_lower ascii_lib (asc ''Dropbox'') \<noteq> asc ''notion''"
    by (simp_all add: ascii_lib_def asc_def ascii_lower_def)
  from unknown_provider_no_documents [OF h1 h2 h3] h1 h2 h3 show ?thesis by simp
qed

section \<open>Downloads and the semaphore\<close>

text \<open>What each download path does, for every input: \<open>_http_get_bytes\<close> brackets its GET
  with the semaphore, the two Google paths issue theirs bare.\<close>

lemma http_get_bytes_trace:
  "trace (snd (http_get_bytes url w)) = trace w @ [SemAcquire, HttpGet url None [], SemRelease]"
  by (simp add: http_get_bytes_def emit_def Let_def split: prod.splits sum.splits)

lemma download_file_trace:
  "trace (snd (download_file token file_id w)) =
     trace w @ [HttpGet (GOOGLE_FILES_URL @ asc ''/'' @ file_id) (bearer token)
                  [(asc ''alt'', PStr (asc ''media''))]]"
  by (simp add: download_file_def emit_def Let_def split: prod.splits sum.splits)

lemma export_native_file_trace:
  "trace (snd (export_native_file token file_id mime w)) =
     trace w @ [HttpGet (GOOGLE_FILES_URL @ asc ''/'' @ file_id @ asc ''/export'') (bearer token)
                  [(asc ''mimeType'', PStr (export_target mime))]]"
  by (simp add: export_native_file_def emit_def Let_def split: prod.splits sum.splits)

lemma folder_link_id: "extract_id_from_link (asc ''/folders/F1'') = Some (asc ''F1'')"
  by (simp add: extract_id_from_link_def asc_def startswith_def idchar_def)

lemma folder_world_token:
  "google_get_valid_token ascii_lib (asc ''alice'') drive_folder_world =
     (Inr (asc ''access-1''), drive_folder_world)"
  by (simp add: google_get_valid_token_def drive_folder_world_def eval_defs)

lemma hello_preview:
  "text_preview ascii_lib (asc ''notes.txt'') (enc ''hello'') 600 = Inr (asc ''hello'')"
  by (simp add: text_preview_def ascii_lib_def asc_def enc_def endswith_def is_office_zip_def
      OFFICE_EXTS_def plain_text_def slice_to_def strip_def truncated_def ellipsis_def
      isspace_def ascii_lower_def)

text \<open>
  C7, on the code. Enumerating the Drive folder downloads the file \<open>f2\<close> with a GET that no
  semaphore operation surrounds: the whole run performs three requests and neither an
  acquire nor a release, where the same download through \<open>_http_get_bytes\<close> is bracketed.
\<close>

theorem google_download_outside_throttle:
  "fst (google_enumerate_from_link ascii_lib (asc ''alice'') (asc ''/folders/F1'') 30 drive_folder_world) =
     Inr [google_doc (asc ''f2'') (asc ''notes.txt'') (asc ''text/plain'') (asc ''hello'')] \<and>
   trace (snd (google_enumerate_from_link ascii_lib (asc ''alice'') (asc ''/folders/F1'') 30 drive_folder_world)) =
     [HttpGet (GOOGLE_FILES_URL @ asc ''/F1'') (bearer (asc ''access-1''))
        [(asc ''fields'', PStr (asc ''id,name,mimeType,size''))],
      HttpGet GOOGLE_FILES_URL (bearer (asc ''access-1''))
        [(asc ''q'', PStr ([39] @ asc ''F1'' @ [39] @ asc '' in parents and trashed = false'')),
         (asc ''pageSize'', PInt 30),
         (asc ''fields'', PStr (asc ''files(id,name,mimeType,size)''))],
      HttpGet (GOOGLE_FILES_URL @ asc ''/f2'') (bearer (asc ''access-1''))
        [(asc ''alt'', PStr (asc ''media''))]] \<and>
   trace (snd (http_get_bytes (asc ''https://example.org/f2'') world0)) =
     [SemAcquire, HttpGet (asc ''https://example.org/f2'') None [], SemRelease]"
proof -
  have ne: "asc ''access-1'' \<noteq> []" "asc ''F1'' \<noteq> []" "asc ''hello'' \<noteq> []" "enc ''hello'' \<noteq> []"
    by (simp_all add: asc_def enc_def)
  have notnative: "\<not> startswith (asc ''text/plain'') (asc ''application/vnd.google-apps.'')"
    by (simp add: asc_def startswith_def)
  have self: "contains s s" for s
    by (cases s) (simp_all add: startswith_def)
  have tr: "trace (connected ''google'' 5000) = []"
    by (simp add: connected_def save_connection_def world0_def Let_def)
  show ?thesis
    apply (simp add: google_enumerate_from_link_def io_bind_def ret_def folder_world_token
        folder_link_id ne)
    apply (simp add: get_file_metadata_def list_folder_def drive_folder_world_def next_reply_def
        emit_def gfile_empty_def or_empty_def Let_def self notnative google_preview_def
        download_file_def MAX_PREVIEW_BYTES_def preview_of_def hello_preview ne tr io_bind_def
        http_get_bytes_def world0_def)
    apply (simp add: asc_def)
    done
qed

section \<open>Properties of the OneDrive listing\<close>

text \<open>Requests and replies do not touch the stored tokens.\<close>

lemma read_row_frame [simp]:
  "read_token_row L u p (emit ev w) = read_token_row L u p w"
  "read_token_row L u p (w\<lparr>graph_replies := g\<rparr>) = read_token_row L u p w"
  "read_token_row L u p (w\<lparr>onedrive_token_replies := t\<rparr>) = read_token_row L u p w"
  by (simp_all add: read_token_row_def get_provider_token_def get_connection_row_def emit_def)

text \<open>A token that is not due within 60 seconds is returned without a refresh.\<close>

lemma valid_token_unchanged:
  "clock w + 60 \<le> onedrive_expiry L u w \<Longrightarrow>
   onedrive_get_valid_token L u w = (Inr (onedrive_access L u w), w)"
  by (simp add: onedrive_get_valid_token_def onedrive_expiry_def onedrive_access_def Let_def)

lemma graph_get_reply:
  "graph_replies w = Reply st b # rest \<Longrightarrow>
   graph_get url token limit w =
     (Inr (st, b), emit (HttpGet url (Some (asc ''Bearer '' @ token)) [(asc ''$top'', PInt limit)])
                     (w\<lparr>graph_replies := rest\<rparr>))"
  by (simp add: graph_get_def next_reply_def)

lemma token_post_frame:
  "onedrive_token_post w = (r, w') \<Longrightarrow>
   trace w' = trace w @ [HttpPost (ONEDRIVE_TOKEN_URL w)] \<and> graph_replies w' = graph_replies w \<and>
   clock w' = clock w"
  by (auto simp: onedrive_token_post_def emit_def Let_def next_reply_def
      split: prod.splits sum.splits if_splits option.splits list.splits reply.splits)

lemma save_connection_frame:
  "trace (save_connection L u p t a e m w) = trace w"
  "graph_replies (save_connection L u p t a e m w) = graph_replies w"
  "clock (save_connection L u p t a e m w) = clock w"
  by (simp_all add: save_connection_def Let_def)

text \<open>A refresh that succeeds has posted exactly once; one that fails has issued no GET.\<close>

lemma refresh_ok_frame:
  assumes "onedrive_refresh_token L u w = (Inr x, w')"
  shows "trace w' = trace w @ [HttpPost (ONEDRIVE_TOKEN_URL w)] \<and> graph_replies w' = graph_replies w \<and>
         clock w' = clock w"
  using assms
  apply (simp add: onedrive_refresh_token_def Let_def io_bind_def split: if_splits)
  apply (cases "onedrive_token_post w")
  apply (auto simp: save_connection_frame split: sum.splits dest: token_post_frame)
  done

lemma refresh_fail_frame:
  assumes "onedrive_refresh_token L u w = (Inl e, w')"
  shows "filter is_get (trace w') = filter is_get (trace w)"
  using assms
  apply (simp add: onedrive_refresh_token_def Let_def io_bind_def split: if_splits)
  apply (cases "onedrive_token_post w")
  apply (auto simp: save_connection_frame split: sum.splits dest: token_post_frame)
  done

text \<open>
  C6, as the code has it. A listing call made with a stored token that is not due, whose GET
  is answered 401, calls \<open>refresh_token\<close> once. When the refresh raises, \<open>list_my_drive\<close> raises
  the same exception and has issued no second GET. When the refresh succeeds and the new
  token is not due within 60 seconds, the call performs exactly the first GET, one POST to
  the token endpoint and one retry of the same GET with the new token; when that retry is
  answered with a status other than 200, the result is the empty list.
\<close>

theorem list_my_drive_unauthorized:
  assumes fresh: "clock w + 60 \<le> onedrive_expiry L user_name w"
    and g: "graph_replies w = Reply 401 b # rest"
    and w1: "w1 = emit (listing_get folder_id (onedrive_access L user_name w) limit)
                    (w\<lparr>graph_replies := rest\<rparr>)"
  shows "(\<forall>e w2. onedrive_refresh_token L user_name w1 = (Inl e, w2) \<longrightarrow>
            list_my_drive L user_name folder_id limit w = (Inl e, w2) \<and>
            filter is_get (trace w2) =
              filter is_get (trace w) @ [listing_get folder_id (onedrive_access L user_name w) limit]) \<and>
         (\<forall>w2. onedrive_refresh_token L user_name w1 = (Inr (), w2) \<longrightarrow>
            clock w2 + 60 \<le> onedrive_expiry L user_name w2 \<longrightarrow>
            trace (snd (list_my_drive L user_name folder_id limit w)) =
              trace w @ [listing_get folder_id (onedrive_access L user_name w) limit,
                         HttpPost (ONEDRIVE_TOKEN_URL w),
                         listing_get folder_id (onedrive_access L user_name w2) limit] \<and>
            (\<forall>st b2 rest'. rest = Reply st b2 # rest' \<longrightarrow> st \<noteq> 200 \<longrightarrow>
               fst (list_my_drive L user_name folder_id limit w) = Inr []))"
proof (intro conjI allI impI)
  have first: "graph_get (children_url folder_id) (onedrive_access L user_name w) limit w = (Inr (401, b), w1)"
    using g w1 by (simp add: graph_get_reply listing_get_def)
  have env: "ONEDRIVE_TOKEN_URL w1 = ONEDRIVE_TOKEN_URL w"
    using w1 by (simp add: ONEDRIVE_TOKEN_URL_def emit_def)
  have tr1: "trace w1 = trace w @ [listing_get folder_id (onedrive_access L user_name w) limit]"
    using w1 by (simp add: emit_def)
  {
    fix e w2
    assume f: "onedrive_refresh_token L user_name w1 = (Inl e, w2)"
    show "list_my_drive L user_name folder_id limit w = (Inl e, w2)"
      using fresh first f
      by (simp add: list_my_drive_def io_bind_def valid_token_unchanged Let_def)
    show "filter is_get (trace w2) =
            filter is_get (trace w) @ [listing_get folder_id (onedrive_access L user_name w) limit]"
      using refresh_fail_frame [OF f] tr1 by (simp add: listing_get_def)
  }
  {
    fix w2
    assume ok: "onedrive_refresh_token L user_name w1 = (Inr (), w2)"
      and fresh2: "clock w2 + 60 \<le> onedrive_expiry L user_name w2"
    from refresh_ok_frame [OF ok] have fr: "trace w2 = trace w1 @ [HttpPost (ONEDRIVE_TOKEN_URL w1)]"
      "graph_replies w2 = graph_replies w1" by simp_all
    have g2w: "graph_replies w2 = rest" using fr(2) w1 by (simp add: emit_def)
    have run: "list_my_drive L user_name folder_id limit w =
        io_bind (graph_get (children_url folder_id) (onedrive_access L user_name w2) limit)
          (\<lambda>r'. if fst r' \<noteq> 200 then ret []
                 else (case snd r' of
                      None \<Rightarrow> throw LibError
                    | Some v \<Rightarrow>
                        (case drive_docs (slice_to (case v of None \<Rightarrow> [] | Some items \<Rightarrow> items) limit) of
                           Inl e \<Rightarrow> throw e
                         | Inr docs \<Rightarrow> ret docs))) w2"
      using fresh first ok fresh2
      by (simp add: list_my_drive_def io_bind_def valid_token_unchanged Let_def)
    have second: "trace (snd (graph_get (children_url folder_id) (onedrive_access L user_name w2) limit w2)) =
        trace w2 @ [listing_get folder_id (onedrive_access L user_name w2) limit]"
      by (simp add: graph_get_def emit_def listing_get_def split: prod.splits)
    show "trace (snd (list_my_drive L user_name folder_id limit w)) =
              trace w @ [listing_get folder_id (onedrive_access L user_name w) limit,
                         HttpPost (ONEDRIVE_TOKEN_URL w),
                         listing_get folder_id (onedrive_access L user_name w2) limit]"
      using second fr(1) tr1 env
      by (cases "graph_get (children_url folder_id) (onedrive_access L user_name w2) limit w2")
         (auto simp: run io_bind_def ret_def throw_def split: sum.splits option.splits)
    {
      fix st b2 rest'
      assume "rest = Reply st b2 # rest'" and ne: "st \<noteq> 200"
      then have "graph_get (children_url folder_id) (onedrive_access L user_name w2) limit w2 =
          (Inr (st, b2), emit (listing_get folder_id (onedrive_access L user_name w2) limit) (w2\<lparr>graph_replies := rest'\<rparr>))"
        using g2w by (simp add: graph_get_reply listing_get_def)
      then show "fst (list_my_drive L user_name folder_id limit w) = Inr []"
        using ne by (simp add: run io_bind_def ret_def)
    }
  }
qed

lemmas od_defs = onedrive_refresh_token_def onedrive_token_post_def ONEDRIVE_TOKEN_URL_def
  onedrive_get_valid_token_def onedrive_expiry_def onedrive_access_def listing_get_def
  children_url_def GRAPH_BASE_def graph_get_def list_my_drive_def

text \<open>The claim as the specification words it fails when the token endpoint refuses the
  refresh: the 401 is followed by one POST and no retry, and the call raises instead of
  returning a list.\<close>

theorem list_my_drive_no_retry_counterexample:
  "graph_replies refused_world = [Reply 401 None, Reply 200 (Some (Some []))] \<and>
   fst (list_my_drive ascii_lib (asc ''alice'') (asc ''root'') 50 refused_world) =
     Inl (RuntimeError (asc ''OneDrive token refresh failed'')) \<and>
   filter is_get (trace (snd (list_my_drive ascii_lib (asc ''alice'') (asc ''root'') 50 refused_world))) =
     [listing_get (asc ''root'') (asc ''access-1'') 50] \<and>
   filter is_post (trace (snd (list_my_drive ascii_lib (asc ''alice'') (asc ''root'') 50 refused_world))) =
     [HttpPost (ONEDRIVE_TOKEN_URL world0)]"
  by (simp add: refused_world_def od_defs eval_defs)

theorem list_my_drive_unauthorized_witness:
  "clock unauthorized_world + 60 \<le> onedrive_expiry ascii_lib (asc ''alice'') unauthorized_world \<and>
   graph_replies unauthorized_world = [Reply 401 None, Reply 401 None] \<and>
   fst (onedrive_refresh_token ascii_lib (asc ''alice'') (after_first_get unauthorized_world)) = Inr () \<and>
   trace (snd (list_my_drive ascii_lib (asc ''alice'') (asc ''root'') 50 unauthorized_world)) =
     [listing_get (asc ''root'') (asc ''access-1'') 50,
      HttpPost (ONEDRIVE_TOKEN_URL unauthorized_world),
      listing_get (asc ''root'') (asc ''access-2'') 50] \<and>
   fst (list_my_drive ascii_lib (asc ''alice'') (asc ''root'') 50 unauthorized_world) = Inr [] \<and>
   clock refused_world + 60 \<le> onedrive_expiry ascii_lib (asc ''alice'') refused_world \<and>
   graph_replies refused_world = [Reply 401 None, Reply 200 (Some (Some []))] \<and>
   fst (onedrive_refresh_token ascii_lib (asc ''alice'') (after_first_get refused_world)) =
     Inl (RuntimeError (asc ''OneDrive token refresh failed'')) \<and>
   fst (list_my_drive ascii_lib (asc ''alice'') (asc ''root'') 50 refused_world) =
     Inl (RuntimeError (asc ''OneDrive token refresh failed''))"
proof -
  let ?U = unauthorized_world and ?R = refused_world
  let ?a = "asc ''alice''"
  have f1: "clock ?U + 60 \<le> onedrive_expiry ascii_lib ?a ?U"
    by (simp add: unauthorized_world_def od_defs eval_defs)
  have g1: "graph_replies ?U = Reply 401 None # [Reply 401 None]"
    by (simp add: unauthorized_world_def)
  have w1: "after_first_get ?U =
      emit (listing_get (asc ''root'') (onedrive_access ascii_lib ?a ?U) 50) (?U\<lparr>graph_replies := [Reply 401 None]\<rparr>)"
    by (simp add: after_first_get_def g1)
  have r1: "fst (onedrive_refresh_token ascii_lib ?a (after_first_get ?U)) = Inr ()"
    by (simp add: after_first_get_def unauthorized_world_def od_defs eval_defs)
  then have ok: "onedrive_refresh_token ascii_lib ?a (after_first_get ?U) =
      (Inr (), snd (onedrive_refresh_token ascii_lib ?a (after_first_get ?U)))"
    by (metis prod.collapse)
  have f2: "clock (snd (onedrive_refresh_token ascii_lib ?a (after_first_get ?U))) + 60
      \<le> onedrive_expiry ascii_lib ?a (snd (onedrive_refresh_token ascii_lib ?a (after_first_get ?U)))"
    by (simp add: after_first_get_def unauthorized_world_def od_defs eval_defs)
  have a1: "onedrive_access ascii_lib ?a ?U = asc ''access-1''"
    by (simp add: unauthorized_world_def od_defs eval_defs)
  have a2: "onedrive_access ascii_lib ?a (snd (onedrive_refresh_token ascii_lib ?a (after_first_get ?U))) = asc ''access-2''"
    by (simp add: after_first_get_def unauthorized_world_def od_defs eval_defs)
  have t0: "trace ?U = []"
    by (simp add: unauthorized_world_def connected_def save_connection_def world0_def Let_def)
  have f3: "clock ?R + 60 \<le> onedrive_expiry ascii_lib ?a ?R"
    by (simp add: refused_world_def od_defs eval_defs)
  have g3: "graph_replies ?R = Reply 401 None # [Reply 200 (Some (Some []))]"
    by (simp add: refused_world_def)
  have w3: "after_first_get ?R =
      emit (listing_get (asc ''root'') (onedrive_access ascii_lib ?a ?R) 50) (?R\<lparr>graph_replies := [Reply 200 (Some (Some []))]\<rparr>)"
    by (simp add: after_first_get_def g3)
  have r3: "fst (onedrive_refresh_token ascii_lib ?a (after_first_get ?R)) =
      Inl (RuntimeError (asc ''OneDrive token refresh failed''))"
    by (simp add: after_first_get_def refused_world_def od_defs eval_defs)
  then have bad: "onedrive_refresh_token ascii_lib ?a (after_first_get ?R) =
      (Inl (RuntimeError (asc ''OneDrive token refresh failed'')),
       snd (onedrive_refresh_token ascii_lib ?a (after_first_get ?R)))"
    by (metis prod.collapse)
  note A = list_my_drive_unauthorized [OF f1 g1 w1]
  note B = list_my_drive_unauthorized [OF f3 g3 w3]
  from A ok f2 have "trace (snd (list_my_drive ascii_lib ?a (asc ''root'') 50 ?U)) =
     [listing_get (asc ''root'') (asc ''access-1'') 50, HttpPost (ONEDRIVE_TOKEN_URL ?U),
      listing_get (asc ''root'') (asc ''access-2'') 50]"
    and "fst (list_my_drive ascii_lib ?a (asc ''root'') 50 ?U) = Inr []"
    by (simp_all add: a1 a2 t0)
  moreover from B bad have "fst (list_my_drive ascii_lib ?a (asc ''root'') 50 ?R) =
     Inl (RuntimeError (asc ''OneDrive token refresh failed''))"
    by simp
  ultimately show ?thesis using f1 g1 r1 f3 g3 r3 by simp
qed

section \<open>Properties of the gathering loop\<close>

text \<open>The loop only ever appends to \<open>all_docs\<close>.\<close>

lemma all_docs_take_docs:
  "all_docs (take_docs L u p ds g) = all_docs g @ map (\<lambda>d. d\<lparr>d_provider := Some p\<rparr>) ds"
  by (induction ds arbitrary: g) simp_all

lemma gather_from_extends: "prefix (all_docs g) (all_docs (gather_from L u link n g p))"
  by (simp add: gather_from_def all_docs_take_docs split: prod.splits sum.splits)

lemma gather_loop_extends: "prefix (all_docs g) (all_docs (gather_loop L u link n g ps))"
  unfolding gather_loop_def
proof (induction ps arbitrary: g)
  case Nil
  then show ?case by simp
next
  case (Cons p ps)
  have "prefix (all_docs g) (all_docs (gather_from L u link n g p))"
    by (rule gather_from_extends)
  also have "prefix \<dots> (all_docs (foldl (gather_from L u link n) (gather_from L u link n g p) ps))"
    by (rule Cons.IH)
  finally show ?case by simp
qed

lemma gather_from_failed:
  assumes "get_documents_from_provider L u p link n (after g) = (r, w')"
    and "(\<exists>e. r = Inl e) \<or> r = Inr []"
  shows "gather_from L u link n g p = g\<lparr>after := w'\<rparr>"
  using assms by (auto simp: gather_from_def)

text \<open>
  C5. When the enumeration of a selected provider raises, or comes back empty, that round
  of the loop adds nothing to \<open>all_docs\<close> and \<open>sources_used\<close>, the exception goes no further,
  and the loop carries on with the remaining providers: the documents gathered from the
  providers before it stay in the result.
\<close>

theorem failed_provider_contributes_nothing:
  assumes "g1 = gather_loop L user_name link max_files g0 before"
    and "get_documents_from_provider L user_name provider link max_files (after g1) = (r, w')"
    and "(\<exists>e. r = Inl e) \<or> r = Inr []"
  shows "gather_loop L user_name link max_files g0 (before @ provider # rest) =
           gather_loop L user_name link max_files (g1\<lparr>after := w'\<rparr>) rest \<and>
         all_docs (g1\<lparr>after := w'\<rparr>) = all_docs g1 \<and>
         sources_used (g1\<lparr>after := w'\<rparr>) = sources_used g1 \<and>
         prefix (all_docs g1) (all_docs (gather_loop L user_name link max_files g0 (before @ provider # rest)))"
proof -
  have step: "gather_from L user_name link max_files g1 provider = g1\<lparr>after := w'\<rparr>"
    using assms(2,3) by (rule gather_from_failed)
  have eq: "gather_loop L user_name link max_files g0 (before @ provider # rest) =
           gather_loop L user_name link max_files (g1\<lparr>after := w'\<rparr>) rest"
    using assms(1) step by (simp add: gather_loop_def)
  have "prefix (all_docs (g1\<lparr>after := w'\<rparr>))
          (all_docs (gather_loop L user_name link max_files (g1\<lparr>after := w'\<rparr>) rest))"
    by (rule gather_loop_extends)
  then show ?thesis using eq by simp
qed

text \<open>No usable token: without a stored connection the Google enumeration returns the empty
  list, and the OneDrive listing raises (which \<open>enumerate_from_link\<close> catches).\<close>

lemma google_no_connection:
  assumes "read_token_row L u (asc ''google'') w = None" and "0 \<le> clock w"
  shows "google_enumerate_from_link L u link n w = (Inr [], w)"
  using assms
  by (simp add: google_enumerate_from_link_def google_get_valid_token_def google_refresh_token_def
      io_bind_def ret_def extract_tokens_def tok_expires_at_def tok_refresh_token_def
      tok_access_token_def or_else_def or_empty_def strip_def Let_def)

lemma onedrive_no_connection:
  assumes "read_token_row L u (asc ''onedrive'') w = None" and "0 \<le> clock w"
  shows "list_my_drive L u folder_id n w = (Inl (RuntimeError (asc ''onedrive refresh_token not found'')), w)"
  using assms
  by (simp add: list_my_drive_def onedrive_get_valid_token_def onedrive_refresh_token_def
      io_bind_def ret_def extract_tokens_def tok_expires_at_def tok_refresh_token_def
      tok_access_token_def or_else_def or_empty_def strip_def Let_def)

theorem failed_provider_contributes_nothing_witness:
  "get_documents_from_provider ascii_lib (asc ''alice'') (asc ''google'') [] 10 two_provider_world =
     (Inl (RuntimeError (asc ''Google Client ID/Secret not configured'')), two_provider_world) \<and>
   all_docs (gather_loop ascii_lib (asc ''alice'') [] 10 (nothing_gathered two_provider_world)
               [asc ''google'', asc ''notion'']) =
     [(notion_doc notion_page)\<lparr>d_provider := Some (asc ''notion'')\<rparr>]"
proof -
  let ?g = "nothing_gathered two_provider_world"
  have h1: "?g = gather_loop ascii_lib (asc ''alice'') [] 10 ?g []"
    by (simp add: gather_loop_def)
  have h2: "get_documents_from_provider ascii_lib (asc ''alice'') (asc ''google'') [] 10 (after ?g) =
     (Inl (RuntimeError (asc ''Google Client ID/Secret not configured'')), two_provider_world)"
    by (simp add: nothing_gathered_def get_documents_from_provider_def REGISTRY_def
        google_enumerate_from_link_def google_get_valid_token_def google_refresh_token_def
        two_provider_world_def eval_defs)
  have h3: "(\<exists>e. (Inl (RuntimeError (asc ''Google Client ID/Secret not configured'')) :: py_exn + doc list) = Inl e) \<or>
     (Inl (RuntimeError (asc ''Google Client ID/Secret not configured'')) :: py_exn + doc list) = Inr []"
    by simp
  have n: "get_documents_from_provider ascii_lib (asc ''alice'') (asc ''notion'') [] 10 two_provider_world =
     (Inr [notion_doc notion_page], emit (HttpPost NOTION_API_SEARCH) (two_provider_world\<lparr>notion_replies := []\<rparr>))"
    by (simp add: get_documents_from_provider_def REGISTRY_def notion_enumerate_from_link_def
        search_pages_def notion_get_token_def two_provider_world_def eval_defs)
  have "gather_loop ascii_lib (asc ''alice'') [] 10 ?g ([] @ asc ''google'' # [asc ''notion'']) =
        gather_loop ascii_lib (asc ''alice'') [] 10 (?g\<lparr>after := two_provider_world\<rparr>) [asc ''notion'']"
    using failed_provider_contributes_nothing [OF h1 h2 h3, of "[asc ''notion'']"] by simp
  then have "all_docs (gather_loop ascii_lib (asc ''alice'') [] 10 ?g [asc ''google'', asc ''notion'']) =
     [(notion_doc notion_page)\<lparr>d_provider := Some (asc ''notion'')\<rparr>]"
    by (simp add: gather_loop_def gather_from_def nothing_gathered_def n)
  then show ?thesis using h2 by (simp add: nothing_gathered_def)
qed

end
